theory Spec2Isabelle
  imports Main "HOL-Library.Word"
begin

section \<open>Errors and outcomes\<close>

text \<open>
  A Go \<open>error\<close> value is either built with \<open>fmt.Errorf\<close>, returned by the remote client,
  or the timeout of the backoff loop. A Go function either returns (with a nil or non-nil
  error) or panics.
\<close>

datatype error =
    Errorf string
  | StatusError string
  | ErrWaitTimeout

datatype outcome =
    Returned "error option"
  | Panicked string

section \<open>Strings\<close>

text \<open>
  \<open>strings.Join(elems, sep)\<close> and \<open>strings.Split(s, sep)\<close> of the Go standard library; the
  source only ever splits on the one-byte separator \<open>","\<close>, so \<open>Split\<close> takes the separator
  as a character. \<open>Split\<close> of the empty string is the one-element list holding the empty string.
\<close>

fun Join :: "string list \<Rightarrow> string \<Rightarrow> string" where
  "Join [] sep = []"
| "Join [x] sep = x"
| "Join (x # y # ys) sep = x @ sep @ Join (y # ys) sep"

fun Split :: "string \<Rightarrow> char \<Rightarrow> string list" where
  "Split [] sep = [[]]"
| "Split (c # cs) sep =
     (if c = sep then [] # Split cs sep
      else (case Split cs sep of
              [] \<Rightarrow> [[c]]
            | field # fields \<Rightarrow> (c # field) # fields))"

text \<open>\<open>fmt.Sprintf("%d", n)\<close>: the decimal numeral of an integer.\<close>

fun digits :: "nat \<Rightarrow> string" where
  "digits n =
     (if n < 10 then [char_of (48 + n)]
      else digits (n div 10) @ [char_of (48 + n mod 10)])"

definition Sprintf_d :: "int \<Rightarrow> string" where
  "Sprintf_d i = (if i < 0 then CHR ''-'' # digits (nat (- i)) else digits (nat i))"

section \<open>Resources of the orchestration platform\<close>

text \<open>
  The fields of the platform's resources that the source reads or writes. A resource embeds
  its \<open>ObjectMeta\<close>, as in Go, so \<open>Name\<close> and \<open>Namespace\<close> apply to every resource.
\<close>

record OwnerReference =
  OwnerReference_APIVersion :: string
  OwnerReference_Kind :: string
  OwnerReference_Name :: string
  OwnerReference_UID :: string
  OwnerReference_Controller :: "bool option"
  OwnerReference_BlockOwnerDeletion :: "bool option"

record ObjectMeta =
  Name :: string
  Namespace :: string
  UID :: string
  Labels :: "string \<rightharpoonup> string"
  OwnerReferences :: "OwnerReference list"

record EnvVar =
  EnvVar_Name :: string
  EnvVar_Value :: string

record Container =
  Container_Name :: string
  Container_ImagePullPolicy :: string
  Container_Image :: string
  Env :: "EnvVar list"

record PodSpec =
  PodSpec_ServiceAccountName :: string
  Containers :: "Container list"

record PodTemplateSpec = ObjectMeta +
  PodTemplateSpec_Spec :: PodSpec

record LabelSelector =
  MatchLabels :: "string \<rightharpoonup> string"

record DeploymentSpec =
  Selector :: "LabelSelector option"
  Template :: PodTemplateSpec

record Deployment = ObjectMeta +
  Deployment_Spec :: DeploymentSpec

datatype IntOrString = IntVal "32 word" | StrVal string

record ServicePort =
  ServicePort_Port :: "32 word"
  ServicePort_TargetPort :: IntOrString

record ServiceSpec =
  ServiceSpec_Selector :: "string \<rightharpoonup> string"
  Ports :: "ServicePort list"
  ServiceSpec_Type :: string

record Service = ObjectMeta +
  Service_Spec :: ServiceSpec

record ConfigMap = ObjectMeta +
  Data :: "string \<rightharpoonup> string"

text \<open>\<open>intstr.FromInt\<close> stores the \<open>int\<close> it is given as an \<open>int32\<close>.\<close>

definition FromInt :: "64 word \<Rightarrow> IntOrString" where
  "FromInt val = IntVal (ucast val)"

section \<open>The Gateway resource\<close>

text \<open>
  The status of a Gateway is a string type with three named values; any other string is a
  value of the type too, and \<open>operate\<close> has a branch for it.
\<close>

datatype NodePhase =
    NodePhaseNew
  | NodePhaseRunning
  | NodePhaseError
  | NodePhaseOther string

datatype DispatchMechanism =
    HTTPGateway
  | NATSGateway
  | KafkaGateway
  | OtherMechanism string

record NotificationWatchers =
  Watchers_Gateways :: "string list option"
  Watchers_Sensors :: "string list option"

record GatewayService =
  Port :: "32 word"
  TargetPort :: "64 word"
  GatewayService_Type :: string

record GatewaySpec =
  DeploySpec :: "PodSpec option"
  Type :: string
  Version :: string
  DispatchMechanism :: DispatchMechanism
  Watchers :: "NotificationWatchers option"
  Sensors :: "string list"
  Image :: string
  ImagePullPolicy :: string
  ServiceAccountName :: string
  Service :: GatewayService

record Gateway = ObjectMeta +
  Spec :: GatewaySpec
  Status :: NodePhase

section \<open>Package common\<close>

text \<open>
  The constants and helpers of package \<open>common\<close> that the source uses are parameters of the
  model: the naming helpers, the keys of the configuration resource, the labels and
  environment names, the step count of \<open>common.DefaultRetry\<close> and the predicate
  \<open>common.IsRetryableKubeAPIError\<close>. So are \<open>corev1.PullAlways\<close> and
  \<open>v1alpha1.SchemaGroupVersionKind\<close>.
\<close>

record common =
  common_DefaultGatewayTransformerConfigMapName :: "string \<Rightarrow> string"
  common_DefaultGatewayDeploymentName :: "string \<Rightarrow> string"
  common_DefaultGatewayServiceName :: "string \<Rightarrow> string"
  common_EventSource :: string
  common_EventTypeVersion :: string
  common_EventType :: string
  common_SensorList :: string
  common_LabelGatewayName :: string
  common_GatewayTransformerPortEnvVar :: string
  common_GatewayTransformerPort :: int
  common_EnvVarNamespace :: string
  common_GatewayEventTransformerImage :: string
  common_GatewayTransformerConfigMapEnvVar :: string
  common_DefaultRetry_Steps :: int
  common_IsRetryableKubeAPIError :: "error \<Rightarrow> bool"
  corev1_PullAlways :: string
  v1alpha1_SchemaGroupVersionKind :: "string \<times> string"

text \<open>
  \<open>metav1.NewControllerRef(owner, gvk)\<close>: the ownership back-reference to the Gateway; the
  pair is the API version and the kind.
\<close>

definition NewControllerRef :: "Gateway \<Rightarrow> string \<times> string \<Rightarrow> OwnerReference" where
  "NewControllerRef owner gvk =
     \<lparr> OwnerReference_APIVersion = fst gvk,
       OwnerReference_Kind = snd gvk,
       OwnerReference_Name = Name owner,
       OwnerReference_UID = UID owner,
       OwnerReference_Controller = Some True,
       OwnerReference_BlockOwnerDeletion = Some True \<rparr>"

section \<open>Validation (validate.go)\<close>

definition validate :: "Gateway \<Rightarrow> error option" where
  "validate g =
     (if DeploySpec (Spec g) = None then
        Some (Errorf ''gateway deploy specification is not specified'')
      else if Type (Spec g) = [] then
        Some (Errorf ''gateway type is not specified'')
      else if Version (Spec g) = [] then
        Some (Errorf ''gateway version is not specified'')
      else
        (case DispatchMechanism (Spec g) of
           HTTPGateway \<Rightarrow>
             (case Watchers (Spec g) of
                None \<Rightarrow> Some (Errorf ''no associated watchers with gateway'')
              | Some ws \<Rightarrow>
                  if Watchers_Gateways ws = None \<and> Watchers_Sensors ws = None then
                    Some (Errorf ''no associated watchers with gateway'')
                  else None)
         | NATSGateway \<Rightarrow> None
         | KafkaGateway \<Rightarrow> None
         | OtherMechanism m \<Rightarrow> Some (Errorf ''unknown gateway type'')))"

section \<open>The remote resource client\<close>

text \<open>
  The typed clients for the platform are not part of the sources: they are a parameter of
  the model. A client is a record of the seven operations the source calls, each taking the
  namespace the client was opened for, its argument and the state \<open>'w\<close> of the remote side,
  and returning its answer and the new state. A failed \<open>Get\<close> returns only its error (the
  source never reads the object of a failed \<open>Get\<close>); \<open>Gateways.Update\<close> returns an object
  together with its error, since the source assigns both.
\<close>

record 'w Clientset =
  ConfigMaps_Create :: "string \<Rightarrow> ConfigMap \<Rightarrow> 'w \<Rightarrow> error option \<times> 'w"
  Deployments_Create :: "string \<Rightarrow> Deployment \<Rightarrow> 'w \<Rightarrow> error option \<times> 'w"
  Deployments_Get :: "string \<Rightarrow> string \<Rightarrow> 'w \<Rightarrow> (error + Deployment) \<times> 'w"
  Deployments_Update :: "string \<Rightarrow> Deployment \<Rightarrow> 'w \<Rightarrow> error option \<times> 'w"
  Services_Create :: "string \<Rightarrow> Service \<Rightarrow> 'w \<Rightarrow> error option \<times> 'w"
  Gateways_Get :: "string \<Rightarrow> string \<Rightarrow> 'w \<Rightarrow> (error + Gateway) \<times> 'w"
  Gateways_Update :: "string \<Rightarrow> Gateway \<Rightarrow> 'w \<Rightarrow> (Gateway \<times> error option) \<times> 'w"

text \<open>
  Every call to the client is recorded, with its namespace, its argument and its answer, in
  the order the calls are made.
\<close>

datatype event =
    EvConfigMapsCreate string ConfigMap "error option"
  | EvDeploymentsCreate string Deployment "error option"
  | EvDeploymentsGet string string "error + Deployment"
  | EvDeploymentsUpdate string Deployment "error option"
  | EvServicesCreate string Service "error option"
  | EvGatewaysGet string string "error + Gateway"
  | EvGatewaysUpdate string Gateway Gateway "error option"

section \<open>The operation context (gwOperationCtx)\<close>

text \<open>
  \<open>gw\<close> and \<open>updated\<close> are the fields of the source; \<open>world\<close> is the state of the remote side
  reached through \<open>controller\<close>, and \<open>trace\<close> is the record of the calls made so far.
\<close>

record 'w gwOperationCtx =
  gw :: Gateway
  updated :: bool
  world :: 'w
  trace :: "event list"

definition newGatewayOperationCtx :: "Gateway \<Rightarrow> 'w \<Rightarrow> 'w gwOperationCtx" where
  "newGatewayOperationCtx g w = \<lparr> gw = g, updated = False, world = w, trace = [] \<rparr>"

definition call_ConfigMaps_Create ::
  "'w Clientset \<Rightarrow> string \<Rightarrow> ConfigMap \<Rightarrow> 'w gwOperationCtx \<Rightarrow> error option \<times> 'w gwOperationCtx" where
  "call_ConfigMaps_Create k ns cm goc =
     (case ConfigMaps_Create k ns cm (world goc) of
        (err, w) \<Rightarrow> (err, goc\<lparr>world := w, trace := trace goc @ [EvConfigMapsCreate ns cm err]\<rparr>))"

definition call_Deployments_Create ::
  "'w Clientset \<Rightarrow> string \<Rightarrow> Deployment \<Rightarrow> 'w gwOperationCtx \<Rightarrow> error option \<times> 'w gwOperationCtx" where
  "call_Deployments_Create k ns d goc =
     (case Deployments_Create k ns d (world goc) of
        (err, w) \<Rightarrow> (err, goc\<lparr>world := w, trace := trace goc @ [EvDeploymentsCreate ns d err]\<rparr>))"

definition call_Deployments_Get ::
  "'w Clientset \<Rightarrow> string \<Rightarrow> string \<Rightarrow> 'w gwOperationCtx \<Rightarrow> (error + Deployment) \<times> 'w gwOperationCtx" where
  "call_Deployments_Get k ns n goc =
     (case Deployments_Get k ns n (world goc) of
        (r, w) \<Rightarrow> (r, goc\<lparr>world := w, trace := trace goc @ [EvDeploymentsGet ns n r]\<rparr>))"

definition call_Deployments_Update ::
  "'w Clientset \<Rightarrow> string \<Rightarrow> Deployment \<Rightarrow> 'w gwOperationCtx \<Rightarrow> error option \<times> 'w gwOperationCtx" where
  "call_Deployments_Update k ns d goc =
     (case Deployments_Update k ns d (world goc) of
        (err, w) \<Rightarrow> (err, goc\<lparr>world := w, trace := trace goc @ [EvDeploymentsUpdate ns d err]\<rparr>))"

definition call_Services_Create ::
  "'w Clientset \<Rightarrow> string \<Rightarrow> Service \<Rightarrow> 'w gwOperationCtx \<Rightarrow> error option \<times> 'w gwOperationCtx" where
  "call_Services_Create k ns s goc =
     (case Services_Create k ns s (world goc) of
        (err, w) \<Rightarrow> (err, goc\<lparr>world := w, trace := trace goc @ [EvServicesCreate ns s err]\<rparr>))"

definition call_Gateways_Get ::
  "'w Clientset \<Rightarrow> string \<Rightarrow> string \<Rightarrow> 'w gwOperationCtx \<Rightarrow> (error + Gateway) \<times> 'w gwOperationCtx" where
  "call_Gateways_Get k ns n goc =
     (case Gateways_Get k ns n (world goc) of
        (r, w) \<Rightarrow> (r, goc\<lparr>world := w, trace := trace goc @ [EvGatewaysGet ns n r]\<rparr>))"

text \<open>\<open>goc.gw, err = gatewayClient.Update(g)\<close>: the returned object replaces \<open>goc.gw\<close>, whatever the error.\<close>

definition call_Gateways_Update ::
  "'w Clientset \<Rightarrow> string \<Rightarrow> Gateway \<Rightarrow> 'w gwOperationCtx \<Rightarrow> error option \<times> 'w gwOperationCtx" where
  "call_Gateways_Update k ns g goc =
     (case Gateways_Update k ns g (world goc) of
        ((g', err), w) \<Rightarrow>
          (err, goc\<lparr>gw := g', world := w, trace := trace goc @ [EvGatewaysUpdate ns g g' err]\<rparr>))"

section \<open>The retry helper (reapplyUpdate)\<close>

text \<open>
  \<open>wait.ExponentialBackoff(backoff, condition)\<close> runs the condition at most \<open>backoff.Steps\<close>
  times, sleeping in between; it returns the condition's error as soon as there is one, nil
  as soon as the condition holds, and \<open>ErrWaitTimeout\<close> when the steps are used up. The
  sleeps are not modelled.
\<close>

fun ExponentialBackoff ::
  "nat \<Rightarrow> ('s \<Rightarrow> (bool \<times> error option) \<times> 's) \<Rightarrow> 's \<Rightarrow> error option \<times> 's" where
  "ExponentialBackoff 0 condition s = (Some ErrWaitTimeout, s)"
| "ExponentialBackoff (Suc n) condition s =
     (case condition s of
        ((ok, err), s') \<Rightarrow>
          if err \<noteq> None \<or> ok then (err, s') else ExponentialBackoff n condition s')"

text \<open>The closure passed to the backoff loop: one attempt. \<open>gatewayClient\<close> is the namespace the client was opened for.\<close>

definition reapplyUpdate_attempt ::
  "common \<Rightarrow> 'w Clientset \<Rightarrow> string \<Rightarrow> 'w gwOperationCtx \<Rightarrow> (bool \<times> error option) \<times> 'w gwOperationCtx" where
  "reapplyUpdate_attempt cmn k gatewayClient goc =
     (case call_Gateways_Get k gatewayClient (Name (gw goc)) goc of
        (Inl err, goc1) \<Rightarrow> ((False, Some err), goc1)
      | (Inr g, goc1) \<Rightarrow>
          (case call_Gateways_Update k gatewayClient (g\<lparr>Status := Status (gw goc1)\<rparr>) goc1 of
             (Some err, goc2) \<Rightarrow>
               if \<not> common_IsRetryableKubeAPIError cmn err then ((False, Some err), goc2)
               else ((False, None), goc2)
           | (None, goc2) \<Rightarrow> ((True, None), goc2)))"

definition reapplyUpdate ::
  "common \<Rightarrow> 'w Clientset \<Rightarrow> string \<Rightarrow> 'w gwOperationCtx \<Rightarrow> error option \<times> 'w gwOperationCtx" where
  "reapplyUpdate cmn k gatewayClient goc =
     ExponentialBackoff (nat (common_DefaultRetry_Steps cmn))
       (reapplyUpdate_attempt cmn k gatewayClient) goc"

text \<open>
  The status write that \<open>operate\<close> makes in three places:
  \<^verbatim>\<open>goc.gw, err = gatewayClient.Update(goc.gw); if err != nil { err = goc.reapplyUpdate(gatewayClient) }\<close>.
  The error returned here is the one \<open>operate\<close> tests and returns.
\<close>

definition updateGateway ::
  "common \<Rightarrow> 'w Clientset \<Rightarrow> string \<Rightarrow> 'w gwOperationCtx \<Rightarrow> error option \<times> 'w gwOperationCtx" where
  "updateGateway cmn k gatewayClient goc =
     (case call_Gateways_Update k gatewayClient (gw goc) goc of
        (Some err, goc1) \<Rightarrow> reapplyUpdate cmn k gatewayClient goc1
      | (None, goc1) \<Rightarrow> (None, goc1))"

section \<open>The reconcile engine (operate)\<close>

text \<open>The three resources the \<open>New\<close> branch declares, as functions of the Gateway held at that point.\<close>

definition gatewayConfigMap :: "common \<Rightarrow> Gateway \<Rightarrow> ConfigMap" where
  "gatewayConfigMap cmn g =
     \<lparr> Name = common_DefaultGatewayTransformerConfigMapName cmn (Name g),
       Namespace = Namespace g,
       UID = [],
       Labels = Map.empty,
       OwnerReferences = [NewControllerRef g (v1alpha1_SchemaGroupVersionKind cmn)],
       Data = [common_EventSource cmn \<mapsto> Name g,
               common_EventTypeVersion cmn \<mapsto> Version (Spec g),
               common_EventType cmn \<mapsto> Type (Spec g),
               common_SensorList cmn \<mapsto> Join (Sensors (Spec g)) '',''] \<rparr>"

definition gatewayDeployment :: "common \<Rightarrow> Gateway \<Rightarrow> Deployment" where
  "gatewayDeployment cmn g =
     \<lparr> Name = common_DefaultGatewayDeploymentName cmn (Name g),
       Namespace = Namespace g,
       UID = [],
       Labels = [common_LabelGatewayName cmn \<mapsto> Name g],
       OwnerReferences = [NewControllerRef g (v1alpha1_SchemaGroupVersionKind cmn)],
       Deployment_Spec =
         \<lparr> Selector = Some \<lparr> MatchLabels = [common_LabelGatewayName cmn \<mapsto> Name g] \<rparr>,
           Template =
             \<lparr> Name = [], Namespace = [], UID = [],
               Labels = [common_LabelGatewayName cmn \<mapsto> Name g],
               OwnerReferences = [],
               PodTemplateSpec_Spec =
                 \<lparr> PodSpec_ServiceAccountName = ServiceAccountName (Spec g),
                   Containers =
                     [ \<lparr> Container_Name = ''gateway-processor'',
                         Container_ImagePullPolicy = ImagePullPolicy (Spec g),
                         Container_Image = Image (Spec g),
                         Env =
                           [ \<lparr> EnvVar_Name = common_GatewayTransformerPortEnvVar cmn,
                               EnvVar_Value = Sprintf_d (common_GatewayTransformerPort cmn) \<rparr>,
                             \<lparr> EnvVar_Name = common_EnvVarNamespace cmn,
                               EnvVar_Value = Namespace g \<rparr> ] \<rparr>,
                       \<lparr> Container_Name = ''gateway-transformer'',
                         Container_ImagePullPolicy = corev1_PullAlways cmn,
                         Container_Image = common_GatewayEventTransformerImage cmn,
                         Env =
                           [ \<lparr> EnvVar_Name = common_GatewayTransformerConfigMapEnvVar cmn,
                               EnvVar_Value =
                                 common_DefaultGatewayTransformerConfigMapName cmn (Name g) \<rparr>,
                             \<lparr> EnvVar_Name = common_EnvVarNamespace cmn,
                               EnvVar_Value = Namespace g \<rparr> ] \<rparr> ] \<rparr> \<rparr> \<rparr> \<rparr>"

definition gatewayService :: "common \<Rightarrow> Gateway \<Rightarrow> Service" where
  "gatewayService cmn g =
     \<lparr> Name = common_DefaultGatewayServiceName cmn (Name g),
       Namespace = Namespace g,
       UID = [],
       Labels = Map.empty,
       OwnerReferences = [NewControllerRef g (v1alpha1_SchemaGroupVersionKind cmn)],
       Service_Spec =
         \<lparr> ServiceSpec_Selector = [common_LabelGatewayName cmn \<mapsto> Name g],
           Ports = [ \<lparr> ServicePort_Port = Port (Service (Spec g)),
                       ServicePort_TargetPort = FromInt (TargetPort (Service (Spec g))) \<rparr> ],
           ServiceSpec_Type = GatewayService_Type (Service (Spec g)) \<rparr> \<rparr>"

text \<open>\<open>createGatewayService\<close> creates the service and fails silently: the error is logged and dropped.\<close>

definition createGatewayService :: "common \<Rightarrow> 'w Clientset \<Rightarrow> 'w gwOperationCtx \<Rightarrow> 'w gwOperationCtx" where
  "createGatewayService cmn k goc =
     (case call_Services_Create k (Namespace (gw goc)) (gatewayService cmn (gw goc)) goc of
        (err, goc1) \<Rightarrow> goc1)"

text \<open>
  The \<open>New\<close> branch from "set the image policy if not specified" to its end: an empty pull
  policy is set to \<open>corev1.PullAlways\<close> (\<open>withPullPolicy\<close>), the deployment is created, the
  status set from the result, the service created when a port is asked for, and the status
  written.
\<close>

definition withPullPolicy :: "common \<Rightarrow> Gateway \<Rightarrow> Gateway" where
  "withPullPolicy cmn g =
     (if ImagePullPolicy (Spec g) = [] then
        g\<lparr>Spec := (Spec g)\<lparr>ImagePullPolicy := corev1_PullAlways cmn\<rparr>\<rparr>
      else g)"

definition operate_New_deploy ::
  "common \<Rightarrow> 'w Clientset \<Rightarrow> string \<Rightarrow> 'w gwOperationCtx \<Rightarrow> outcome \<times> 'w gwOperationCtx" where
  "operate_New_deploy cmn k gatewayClient goc0 =
     (let goc1 = goc0\<lparr>gw := withPullPolicy cmn (gw goc0)\<rparr>
      in case call_Deployments_Create k (Namespace (gw goc1)) (gatewayDeployment cmn (gw goc1)) goc1 of
           (err, goc2) \<Rightarrow>
             let goc3 =
                   (case err of
                      Some e \<Rightarrow> goc2\<lparr>gw := (gw goc2)\<lparr>Status := NodePhaseError\<rparr>\<rparr>
                    | None \<Rightarrow>
                        let goc2' = goc2\<lparr>gw := (gw goc2)\<lparr>Status := NodePhaseRunning\<rparr>\<rparr>
                        in if Port (Service (Spec (gw goc2'))) \<noteq> 0 then createGatewayService cmn k goc2'
                           else goc2')
             in case updateGateway cmn k gatewayClient goc3 of
                  (Some err', goc4) \<Rightarrow> (Returned (Some err'), goc4)
                | (None, goc4) \<Rightarrow> (Returned None, goc4))"

text \<open>
  The \<open>New\<close> branch from its start: the status is set to \<open>Running\<close>, the configuration
  resource is created; when that fails the status is set to \<open>Error\<close> and written, and unless
  the write fails the branch goes on to the deployment.
\<close>

definition operate_New ::
  "common \<Rightarrow> 'w Clientset \<Rightarrow> string \<Rightarrow> 'w gwOperationCtx \<Rightarrow> outcome \<times> 'w gwOperationCtx" where
  "operate_New cmn k gatewayClient goc0 =
     (let goc1 = goc0\<lparr>gw := (gw goc0)\<lparr>Status := NodePhaseRunning\<rparr>\<rparr>
      in case call_ConfigMaps_Create k (Namespace (gw goc1)) (gatewayConfigMap cmn (gw goc1)) goc1 of
           (Some err, goc2) \<Rightarrow>
             (case updateGateway cmn k gatewayClient (goc2\<lparr>gw := (gw goc2)\<lparr>Status := NodePhaseError\<rparr>\<rparr>) of
                (Some err', goc3) \<Rightarrow> (Returned (Some err'), goc3)
              | (None, goc3) \<Rightarrow> operate_New_deploy cmn k gatewayClient goc3)
         | (None, goc2) \<Rightarrow> operate_New_deploy cmn k gatewayClient goc2)"

text \<open>
  The \<open>Error\<close> branch. \<open>Containers[0]\<close> of a deployment without containers is an index out
  of range, which panics.
\<close>

definition operate_Error ::
  "common \<Rightarrow> 'w Clientset \<Rightarrow> string \<Rightarrow> 'w gwOperationCtx \<Rightarrow> outcome \<times> 'w gwOperationCtx" where
  "operate_Error cmn k gatewayClient goc0 =
     (case call_Deployments_Get k (Namespace (gw goc0)) (Name (gw goc0)) goc0 of
        (Inl err, goc1) \<Rightarrow> (Returned (Some err), goc1)
      | (Inr gDeployment, goc1) \<Rightarrow>
          (case Containers (PodTemplateSpec_Spec (Template (Deployment_Spec gDeployment))) of
             [] \<Rightarrow> (Panicked ''index out of range'', goc1)
           | c # cs \<Rightarrow>
               let gDeployment' =
                     gDeployment\<lparr>Deployment_Spec := (Deployment_Spec gDeployment)
                       \<lparr>Template := (Template (Deployment_Spec gDeployment))
                         \<lparr>PodTemplateSpec_Spec :=
                            (PodTemplateSpec_Spec (Template (Deployment_Spec gDeployment)))
                              \<lparr>Containers := c\<lparr>Container_Image := Image (Spec (gw goc1))\<rparr> # cs\<rparr>\<rparr>\<rparr>\<rparr>
               in case call_Deployments_Update k (Namespace (gw goc1)) gDeployment' goc1 of
                    (Some err, goc2) \<Rightarrow> (Returned (Some err), goc2)
                  | (None, goc2) \<Rightarrow>
                      (case updateGateway cmn k gatewayClient
                              (goc2\<lparr>gw := (gw goc2)\<lparr>Status := NodePhaseRunning\<rparr>\<rparr>) of
                         (Some err', goc3) \<Rightarrow> (Returned (Some err'), goc3)
                       | (None, goc3) \<Rightarrow> (Returned None, goc3))))"

text \<open>
  \<open>operate\<close>: validation first, then one branch by status. \<open>gatewayClient\<close> is opened once,
  for the namespace the Gateway has at that point.
\<close>

definition operate ::
  "common \<Rightarrow> 'w Clientset \<Rightarrow> 'w gwOperationCtx \<Rightarrow> outcome \<times> 'w gwOperationCtx" where
  "operate cmn k goc =
     (case validate (gw goc) of
        Some err \<Rightarrow> (Returned (Some err), goc)
      | None \<Rightarrow>
          let gatewayClient = Namespace (gw goc)
          in case Status (gw goc) of
               NodePhaseNew \<Rightarrow> operate_New cmn k gatewayClient goc
             | NodePhaseError \<Rightarrow> operate_Error cmn k gatewayClient goc
             | NodePhaseRunning \<Rightarrow> (Returned None, goc)
             | NodePhaseOther phase \<Rightarrow> (Panicked ''unknown gateway phase.'', goc))"

section \<open>The configuration watcher (updateConfig)\<close>

record tConfig =
  tConfig_EventType :: string
  tConfig_EventTypeVersion :: string
  tConfig_Sensors :: "string list"
  tConfig_EventSource :: string

text \<open>\<open>Config\<close> is a pointer in the source: no snapshot has been published while it is nil.\<close>

record tOperationCtx =
  tOperationCtx_Namespace :: string
  Config :: "tConfig option"

definition missingKey :: "ConfigMap \<Rightarrow> string \<Rightarrow> error" where
  "missingKey cm key =
     Errorf (''configMap '' @ [CHR 0x27] @ Name cm @ [CHR 0x27] @ '' does not have key ''
             @ [CHR 0x27] @ key @ [CHR 0x27])"

definition updateConfig :: "common \<Rightarrow> tOperationCtx \<Rightarrow> ConfigMap \<Rightarrow> error option \<times> tOperationCtx" where
  "updateConfig cmn t cm =
     (case Data cm (common_EventType cmn) of
        None \<Rightarrow> (Some (missingKey cm (common_EventType cmn)), t)
      | Some eventType \<Rightarrow>
     (case Data cm (common_EventTypeVersion cmn) of
        None \<Rightarrow> (Some (missingKey cm (common_EventTypeVersion cmn)), t)
      | Some eventTypeVersion \<Rightarrow>
     (case Data cm (common_SensorList cmn) of
        None \<Rightarrow> (Some (missingKey cm (common_SensorList cmn)), t)
      | Some sensors \<Rightarrow>
     (case Data cm (common_EventSource cmn) of
        None \<Rightarrow> (Some (missingKey cm (common_EventSource cmn)), t)
      | Some eventSource \<Rightarrow>
          (None,
           t\<lparr>Config := Some \<lparr> tConfig_EventType = eventType,
                              tConfig_EventTypeVersion = eventTypeVersion,
                              tConfig_Sensors = Split sensors (CHR '',''),
                              tConfig_EventSource = eventSource \<rparr>\<rparr>)))))"

section \<open>The webhook gateway (RunConfiguration)\<close>

record hook =
  Endpoint :: string
  Method :: string
  hook_Port :: string

record ConfigData =
  Src :: string
  ConfigData_Config :: string
  Active :: bool

text \<open>
  The process-wide state: the flag \<open>hasServerStarted\<close>, the map \<open>activeRoutes\<close> from an
  endpoint to its set of active methods, the handlers installed with \<open>http.HandleFunc\<close>
  (each closure holds the \<open>h.Endpoint\<close> and the \<open>config.Src\<close> of the configuration that
  installed it), the ports a listener was started for, and the events handed to
  \<open>DispatchEvent\<close>, in order. Goroutines are not modelled: the part of \<open>RunConfiguration\<close>
  before \<open>wg.Wait()\<close>, the clean-up after the stop signal and the handling of one request
  are each one step on this state.
\<close>

record route_handler =
  handler_Endpoint :: string
  handler_Src :: string

record webhookState =
  hasServerStarted :: bool
  listening :: "string list"
  activeRoutes :: "string \<rightharpoonup> string set"
  handlers :: "string \<rightharpoonup> route_handler"
  dispatched :: "(string \<times> string) list"

text \<open>
  A request: its method, its path and what reading its body gives (\<open>ioutil.ReadAll\<close>
  returns the bytes or an error). The answers written to the response writer:
  \<open>common.SendSuccessResponse\<close>, \<open>common.SendErrorResponse\<close>, and the multiplexer's own
  answer for a path without a handler.
\<close>

record request =
  request_Method :: string
  request_Path :: string
  request_Body :: "error + string"

datatype ack = SuccessResponse | ErrorResponse | MuxNotFound

text \<open>
  How a call of \<open>RunConfiguration\<close> stands after its first part: it has returned, it has
  panicked, or it waits in \<open>wg.Wait()\<close> for the stop signal of the hook it registered.
\<close>

datatype run =
    Run_Returned "error option"
  | Run_Panicked string
  | Run_Waiting hook

text \<open>
  \<open>RunConfiguration\<close> up to \<open>wg.Wait()\<close>. The YAML parser is a parameter: it gives an error,
  or the hook pointer, which stays nil for an empty document. \<open>http.HandleFunc\<close> panics when
  the pattern is registered already.
\<close>

definition RunConfiguration ::
  "(string \<Rightarrow> error + hook option) \<Rightarrow> ConfigData \<Rightarrow> webhookState \<Rightarrow> run \<times> ConfigData \<times> webhookState" where
  "RunConfiguration Unmarshal config s =
     (case Unmarshal (ConfigData_Config config) of
        Inl err \<Rightarrow> (Run_Returned (Some err), config, s)
      | Inr None \<Rightarrow> (Run_Panicked ''nil pointer dereference'', config, s)
      | Inr (Some h) \<Rightarrow>
          let s1 = (if hook_Port h \<noteq> [] \<and> \<not> hasServerStarted s
                    then s\<lparr>hasServerStarted := True, listening := listening s @ [hook_Port h]\<rparr>
                    else s);
              config1 = config\<lparr>Active := True\<rparr>
          in if Endpoint h \<noteq> [] \<and> Method h \<noteq> [] then
               (case activeRoutes s1 (Endpoint h) of
                  None \<Rightarrow>
                    let s2 = s1\<lparr>activeRoutes := (activeRoutes s1)(Endpoint h \<mapsto> {Method h})\<rparr>
                    in (case handlers s2 (Endpoint h) of
                          Some other \<Rightarrow> (Run_Panicked ''http: multiple registrations'', config1, s2)
                        | None \<Rightarrow>
                            (Run_Waiting h, config1,
                             s2\<lparr>handlers := (handlers s2)
                                  (Endpoint h \<mapsto> \<lparr> handler_Endpoint = Endpoint h,
                                                   handler_Src = Src config \<rparr>)\<rparr>))
                | Some methods \<Rightarrow>
                    (Run_Waiting h, config1,
                     s1\<lparr>activeRoutes := (activeRoutes s1)(Endpoint h \<mapsto> insert (Method h) methods)\<rparr>))
             else (Run_Returned None, config1, s1))"

text \<open>
  The clean-up goroutine, once the stop signal has come: the method is deleted from the
  endpoint's set (\<open>delete\<close> on the nil map of an unknown endpoint does nothing).
\<close>

definition RunConfiguration_stop :: "hook \<Rightarrow> webhookState \<Rightarrow> webhookState" where
  "RunConfiguration_stop h s =
     (case activeRoutes s (Endpoint h) of
        None \<Rightarrow> s
      | Some activeHTTPMethods \<Rightarrow>
          s\<lparr>activeRoutes := (activeRoutes s)(Endpoint h \<mapsto> activeHTTPMethods - {Method h})\<rparr>)"

text \<open>The handler closure: the answers it writes, and the state with the event dispatched.\<close>

definition handlerFunc :: "route_handler \<Rightarrow> request \<Rightarrow> webhookState \<Rightarrow> ack list \<times> webhookState" where
  "handlerFunc h req s =
     (case activeRoutes s (handler_Endpoint h) of
        Some methods \<Rightarrow>
          if request_Method req \<in> methods then
            (case request_Body req of
               Inl err \<Rightarrow> ([ErrorResponse], s)
             | Inr body \<Rightarrow>
                 ([SuccessResponse], s\<lparr>dispatched := dispatched s @ [(body, handler_Src h)]\<rparr>))
          else ([ErrorResponse], s)
      | None \<Rightarrow> ([ErrorResponse], s))"

text \<open>
  The listener: a request goes to the handler installed for exactly its path; a path
  without a handler is answered by the multiplexer.
\<close>

definition ServeHTTP :: "request \<Rightarrow> webhookState \<Rightarrow> ack list \<times> webhookState" where
  "ServeHTTP req s =
     (case handlers s (request_Path req) of
        None \<Rightarrow> ([MuxNotFound], s)
      | Some h \<Rightarrow> handlerFunc h req s)"

text \<open>The state at process start, and what every state reached from it satisfies.\<close>

definition initialState :: webhookState where
  "initialState =
     \<lparr> hasServerStarted = False, listening = [], activeRoutes = Map.empty,
       handlers = Map.empty, dispatched = [] \<rparr>"

definition routesInstalled :: "webhookState \<Rightarrow> bool" where
  "routesInstalled s \<longleftrightarrow>
     (\<forall>e. (activeRoutes s e = None \<longleftrightarrow> handlers s e = None) \<and>
          (\<forall>h. handlers s e = Some h \<longrightarrow> handler_Endpoint h = e))"


section \<open>A scripted client\<close>

text \<open>
  A client whose answers are scripted: one list of answers for each operation, used up in
  order. When a list is used up a \<open>Create\<close> or \<open>Update\<close> succeeds and a \<open>Get\<close> finds nothing.
  \<open>Gateways.Update\<close> returns the object it was sent unless the script names another one.
\<close>

record script =
  script_ConfigMaps_Create :: "error option list"
  script_Deployments_Create :: "error option list"
  script_Deployments_Get :: "(error + Deployment) list"
  script_Deployments_Update :: "error option list"
  script_Services_Create :: "error option list"
  script_Gateways_Get :: "(error + Gateway) list"
  script_Gateways_Update :: "(Gateway option \<times> error option) list"

fun next_answer :: "'a \<Rightarrow> 'a list \<Rightarrow> 'a \<times> 'a list" where
  "next_answer d [] = (d, [])"
| "next_answer d (x # xs) = (x, xs)"

definition scripted :: "script Clientset" where
  "scripted =
     \<lparr> ConfigMaps_Create = (\<lambda>ns cm w.
         case next_answer None (script_ConfigMaps_Create w) of
           (r, rest) \<Rightarrow> (r, w\<lparr>script_ConfigMaps_Create := rest\<rparr>)),
       Deployments_Create = (\<lambda>ns d w.
         case next_answer None (script_Deployments_Create w) of
           (r, rest) \<Rightarrow> (r, w\<lparr>script_Deployments_Create := rest\<rparr>)),
       Deployments_Get = (\<lambda>ns n w.
         case next_answer (Inl (StatusError ''not found'')) (script_Deployments_Get w) of
           (r, rest) \<Rightarrow> (r, w\<lparr>script_Deployments_Get := rest\<rparr>)),
       Deployments_Update = (\<lambda>ns d w.
         case next_answer None (script_Deployments_Update w) of
           (r, rest) \<Rightarrow> (r, w\<lparr>script_Deployments_Update := rest\<rparr>)),
       Services_Create = (\<lambda>ns sv w.
         case next_answer None (script_Services_Create w) of
           (r, rest) \<Rightarrow> (r, w\<lparr>script_Services_Create := rest\<rparr>)),
       Gateways_Get = (\<lambda>ns n w.
         case next_answer (Inl (StatusError ''not found'')) (script_Gateways_Get w) of
           (r, rest) \<Rightarrow> (r, w\<lparr>script_Gateways_Get := rest\<rparr>)),
       Gateways_Update = (\<lambda>ns g w.
         case next_answer (None, None) (script_Gateways_Update w) of
           ((g', err), rest) \<Rightarrow>
             ((case g' of None \<Rightarrow> g | Some other \<Rightarrow> other, err),
              w\<lparr>script_Gateways_Update := rest\<rparr>)) \<rparr>"

definition noScript :: script where
  "noScript =
     \<lparr> script_ConfigMaps_Create = [], script_Deployments_Create = [],
       script_Deployments_Get = [], script_Deployments_Update = [],
       script_Services_Create = [], script_Gateways_Get = [],
       script_Gateways_Update = [] \<rparr>"

section \<open>Reading a record of calls\<close>

text \<open>
  The Gateway persisted by a run is the object of the last \<open>Gateways.Update\<close> the remote
  side accepted; a resource is created by a \<open>Create\<close> that the remote side accepted.
\<close>

fun accepted_update :: "event \<Rightarrow> Gateway option" where
  "accepted_update (EvGatewaysUpdate ns g g' None) = Some g"
| "accepted_update ev = None"

definition persisted :: "event list \<Rightarrow> Gateway option" where
  "persisted tr = (case rev (List.map_filter accepted_update tr) of [] \<Rightarrow> None | g # earlier \<Rightarrow> Some g)"

fun is_update_attempt :: "event \<Rightarrow> bool" where
  "is_update_attempt (EvGatewaysUpdate ns g g' err) = True"
| "is_update_attempt ev = False"

definition update_attempts :: "event list \<Rightarrow> nat" where
  "update_attempts tr = length (filter is_update_attempt tr)"

fun is_gateway_call :: "event \<Rightarrow> bool" where
  "is_gateway_call (EvGatewaysUpdate ns g g' err) = True"
| "is_gateway_call (EvGatewaysGet ns n r) = True"
| "is_gateway_call ev = False"

fun service_create :: "event \<Rightarrow> (Service \<times> error option) option" where
  "service_create (EvServicesCreate ns sv err) = Some (sv, err)"
| "service_create ev = None"

definition service_creates :: "event list \<Rightarrow> (Service \<times> error option) list" where
  "service_creates tr = List.map_filter service_create tr"

definition services_created :: "event list \<Rightarrow> Service list" where
  "services_created tr = map fst (filter (\<lambda>(sv, err). err = None) (service_creates tr))"

fun deployment_create :: "event \<Rightarrow> (Deployment \<times> error option) option" where
  "deployment_create (EvDeploymentsCreate ns d err) = Some (d, err)"
| "deployment_create ev = None"

definition deployment_creates :: "event list \<Rightarrow> (Deployment \<times> error option) list" where
  "deployment_creates tr = List.map_filter deployment_create tr"

section \<open>Example inputs\<close>

text \<open>
  A Gateway that passes validation, and values for the parameters of package \<open>common\<close>:
  naming helpers that append a suffix, five retry steps, and conflicts as the retryable
  errors.
\<close>

definition exampleGateway :: Gateway where
  "exampleGateway =
     \<lparr> Name = ''webhook'', Namespace = ''argo-events'', UID = ''u1'', Labels = Map.empty,
       OwnerReferences = [],
       Spec = \<lparr> DeploySpec = Some \<lparr> PodSpec_ServiceAccountName = [], Containers = [] \<rparr>,
                Type = ''webhook'', Version = ''1.0'', DispatchMechanism = NATSGateway,
                Watchers = None, Sensors = [''s1'', ''s2''], Image = ''argoproj/webhook'',
                ImagePullPolicy = [], ServiceAccountName = ''sa'',
                Service = \<lparr> Port = 9000, TargetPort = 9000, GatewayService_Type = ''ClusterIP'' \<rparr> \<rparr>,
       Status = NodePhaseNew \<rparr>"

definition exampleCommon :: common where
  "exampleCommon =
     \<lparr> common_DefaultGatewayTransformerConfigMapName = (\<lambda>n. n @ ''-gateway-transformer-configmap''),
       common_DefaultGatewayDeploymentName = (\<lambda>n. n @ ''-gateway-deployment''),
       common_DefaultGatewayServiceName = (\<lambda>n. n @ ''-gateway-svc''),
       common_EventSource = ''eventSource'',
       common_EventTypeVersion = ''eventTypeVersion'',
       common_EventType = ''eventType'',
       common_SensorList = ''sensors'',
       common_LabelGatewayName = ''gateway-name'',
       common_GatewayTransformerPortEnvVar = ''TRANSFORMER_PORT'',
       common_GatewayTransformerPort = 9300,
       common_EnvVarNamespace = ''NAMESPACE'',
       common_GatewayEventTransformerImage = ''argoproj/gateway-transformer'',
       common_GatewayTransformerConfigMapEnvVar = ''TRANSFORMER_CONFIG_MAP'',
       common_DefaultRetry_Steps = 5,
       common_IsRetryableKubeAPIError = (\<lambda>err. err = StatusError ''conflict''),
       corev1_PullAlways = ''Always'',
       v1alpha1_SchemaGroupVersionKind = (''argoproj.io/v1alpha1'', ''Gateway'') \<rparr>"

text \<open>Inputs used to run the configuration watcher and the webhook gateway.\<close>

definition exampleConfigMap :: ConfigMap where
  "exampleConfigMap =
     \<lparr> Name = ''webhook-gateway-transformer-configmap'', Namespace = ''argo-events'', UID = [],
       Labels = Map.empty, OwnerReferences = [],
       Data = [''eventSource'' \<mapsto> ''webhook'', ''eventTypeVersion'' \<mapsto> ''1.0'',
               ''eventType'' \<mapsto> ''webhook'', ''sensors'' \<mapsto> ''s1,s2,s3''] \<rparr>"

definition exampleSnapshot :: tOperationCtx where
  "exampleSnapshot =
     \<lparr> tOperationCtx_Namespace = ''argo-events'',
       Config = Some \<lparr> tConfig_EventType = ''old'', tConfig_EventTypeVersion = ''0.9'',
                       tConfig_Sensors = [''s0''], tConfig_EventSource = ''webhook'' \<rparr> \<rparr>"

definition exampleConfigData :: ConfigData where
  "exampleConfigData = \<lparr> Src = ''webhook.fooConfig'', ConfigData_Config = ''port: 12000'', Active = False \<rparr>"



definition conflictsCtx :: "nat \<Rightarrow> script gwOperationCtx" where
  "conflictsCtx n =
     newGatewayOperationCtx exampleGateway
       (noScript\<lparr>script_Gateways_Get := replicate (Suc n) (Inr exampleGateway),
                 script_Gateways_Update :=
                   replicate n (None, Some (StatusError ''conflict'')) @ [(None, None)]\<rparr>)"

definition forbiddenCtx :: "script gwOperationCtx" where
  "forbiddenCtx =
     newGatewayOperationCtx exampleGateway
       (noScript\<lparr>script_Gateways_Get := [Inr exampleGateway],
                 script_Gateways_Update := [(None, Some (StatusError ''forbidden''))]\<rparr>)"

definition exampleCtx :: "script gwOperationCtx" where
  "exampleCtx = newGatewayOperationCtx exampleGateway noScript"

definition serviceRefusedCtx :: "script gwOperationCtx" where
  "serviceRefusedCtx =
     newGatewayOperationCtx exampleGateway
       (noScript\<lparr>script_Services_Create := [Some (StatusError ''forbidden'')]\<rparr>)"

definition updateRefusedCtx :: "script gwOperationCtx" where
  "updateRefusedCtx =
     newGatewayOperationCtx exampleGateway
       (noScript\<lparr>script_Gateways_Get := [Inr exampleGateway],
                 script_Gateways_Update := [(None, Some (StatusError ''forbidden'')),
                                            (None, Some (StatusError ''forbidden''))]\<rparr>)"

definition configMapRefusedCtx :: "script gwOperationCtx" where
  "configMapRefusedCtx =
     newGatewayOperationCtx exampleGateway
       (noScript\<lparr>script_ConfigMaps_Create := [Some (StatusError ''already exists'')]\<rparr>)"









section \<open>Splitting and joining\<close>

lemma Split_not_Nil: "Split s c \<noteq> []"
  by (induction s) (auto split: list.splits)

lemma Split_without_sep: "c \<notin> set x \<Longrightarrow> Split x c = [x]"
  by (induction x) auto

lemma Split_append_sep: "c \<notin> set x \<Longrightarrow> Split (x @ c # rest) c = x # Split rest c"
  by (induction x) auto

lemma Split_Join:
  "xs \<noteq> [] \<Longrightarrow> \<forall>x\<in>set xs. c \<notin> set x \<Longrightarrow> Split (Join xs [c]) c = xs"
proof (induction xs "[c]" rule: Join.induct)
  case 1
  then show ?case by simp
next
  case (2 x)
  then show ?case by (simp add: Split_without_sep)
next
  case (3 x y ys)
  then show ?case by (simp add: Split_append_sep)
qed

lemma Join_Cons: "ys \<noteq> [] \<Longrightarrow> Join (x # ys) sep = x @ sep @ Join ys sep"
  by (cases ys) auto

lemma Join_Split: "Join (Split s c) [c] = s"
proof (induction s)
  case Nil
  then show ?case by simp
next
  case (Cons a s)
  show ?case
  proof (cases "a = c")
    case True
    then show ?thesis using Cons by (simp add: Join_Cons Split_not_Nil)
  next
    case False
    obtain f fs where sp: "Split s c = f # fs"
      using Split_not_Nil by (cases "Split s c") auto
    show ?thesis
    proof (cases fs)
      case Nil
      then show ?thesis using Cons sp False by simp
    next
      case (Cons g gs)
      then show ?thesis using Cons.IH sp False by simp
    qed
  qed
qed

section \<open>Validation failures make no call\<close>

text \<open>
  C9 (amended). For every Gateway whose dispatch mechanism is none of HTTP, NATS and Kafka,
  \<open>validate\<close> returns an error, and \<open>operate\<close> returns that same error leaving the context
  as it was: no call to the remote side is made. The error is "unknown gateway type" when
  the deploy specification, the type and the version are present; otherwise it is the error
  of the earlier check that fails.
\<close>

theorem operate_unknown_mechanism:
  assumes "DispatchMechanism (Spec (gw goc)) = OtherMechanism m"
  shows "\<exists>err. validate (gw goc) = Some err
           \<and> operate cmn k goc = (Returned (Some err), goc)
           \<and> (DeploySpec (Spec (gw goc)) \<noteq> None \<and> Type (Spec (gw goc)) \<noteq> []
                \<and> Version (Spec (gw goc)) \<noteq> []
              \<longrightarrow> err = Errorf ''unknown gateway type'')"
  using assms by (auto simp: validate_def operate_def)

theorem operate_unknown_mechanism_witness:
  "operate exampleCommon scripted
     (newGatewayOperationCtx
        (exampleGateway\<lparr>Spec := (Spec exampleGateway)\<lparr>DispatchMechanism := OtherMechanism ''AMQP''\<rparr>\<rparr>)
        noScript)
   = (Returned (Some (Errorf ''unknown gateway type'')),
      newGatewayOperationCtx
        (exampleGateway\<lparr>Spec := (Spec exampleGateway)\<lparr>DispatchMechanism := OtherMechanism ''AMQP''\<rparr>\<rparr>)
        noScript)"
  using operate_unknown_mechanism
    [of "newGatewayOperationCtx
          (exampleGateway\<lparr>Spec := (Spec exampleGateway)\<lparr>DispatchMechanism := OtherMechanism ''AMQP''\<rparr>\<rparr>)
          noScript" "''AMQP''" exampleCommon scripted]
  by (simp add: newGatewayOperationCtx_def exampleGateway_def)

text \<open>
  C9 as stated fails: a Gateway with an unknown dispatch mechanism and an empty type is
  rejected with "gateway type is not specified", not with "unknown gateway type".
\<close>

theorem validate_unknown_mechanism_counterexample:
  "DispatchMechanism
     (Spec (exampleGateway\<lparr>Spec := (Spec exampleGateway)
              \<lparr>DispatchMechanism := OtherMechanism ''AMQP'', Type := []\<rparr>\<rparr>))
     = OtherMechanism ''AMQP''
   \<and> validate (exampleGateway\<lparr>Spec := (Spec exampleGateway)
                 \<lparr>DispatchMechanism := OtherMechanism ''AMQP'', Type := []\<rparr>\<rparr>)
     = Some (Errorf ''gateway type is not specified'')
   \<and> validate (exampleGateway\<lparr>Spec := (Spec exampleGateway)
                 \<lparr>DispatchMechanism := OtherMechanism ''AMQP'', Type := []\<rparr>\<rparr>)
     \<noteq> Some (Errorf ''unknown gateway type'')"
  by (simp add: validate_def exampleGateway_def)

section \<open>The configuration watcher\<close>

text \<open>
  C7. Applied to a payload holding the four keys, \<open>updateConfig\<close> returns no error and
  replaces the snapshot by one whose consumer list is the comma-split of the sensor-list
  string, in order (joining it with commas gives the string back). Applied to a payload in
  which one of the four keys is missing, it returns an error and leaves the context, and so
  the snapshot published before, as it was.
\<close>

theorem updateConfig_snapshot:
  "(Data cm (common_EventType cmn) = Some eventType
      \<and> Data cm (common_EventTypeVersion cmn) = Some eventTypeVersion
      \<and> Data cm (common_SensorList cmn) = Some sensors
      \<and> Data cm (common_EventSource cmn) = Some eventSource
    \<longrightarrow> updateConfig cmn t cm =
          (None, t\<lparr>Config := Some \<lparr> tConfig_EventType = eventType,
                                     tConfig_EventTypeVersion = eventTypeVersion,
                                     tConfig_Sensors = Split sensors (CHR '',''),
                                     tConfig_EventSource = eventSource \<rparr>\<rparr>)
        \<and> Join (Split sensors (CHR '','')) '','' = sensors)
   \<and> (key \<in> {common_EventType cmn, common_EventTypeVersion cmn,
               common_SensorList cmn, common_EventSource cmn}
      \<and> Data cm key = None
    \<longrightarrow> (\<exists>err. updateConfig cmn t cm = (Some err, t)))"
  by (auto simp: updateConfig_def Join_Split split: option.splits)

theorem updateConfig_snapshot_witness:
  "updateConfig exampleCommon exampleSnapshot exampleConfigMap =
     (None, exampleSnapshot\<lparr>Config := Some \<lparr> tConfig_EventType = ''webhook'',
                                              tConfig_EventTypeVersion = ''1.0'',
                                              tConfig_Sensors = [''s1'', ''s2'', ''s3''],
                                              tConfig_EventSource = ''webhook'' \<rparr>\<rparr>)
   \<and> (\<exists>err. updateConfig exampleCommon exampleSnapshot
               (exampleConfigMap\<lparr>Data := (Data exampleConfigMap)(''sensors'' := None)\<rparr>)
             = (Some err, exampleSnapshot))"
  using updateConfig_snapshot
      [where cm = exampleConfigMap and cmn = exampleCommon and eventType = "''webhook''"
         and eventTypeVersion = "''1.0''" and sensors = "''s1,s2,s3''"
         and eventSource = "''webhook''" and key = "''sensors''" and t = exampleSnapshot]
    updateConfig_snapshot
      [where cm = "exampleConfigMap\<lparr>Data := (Data exampleConfigMap)(''sensors'' := None)\<rparr>"
         and cmn = exampleCommon and key = "''sensors''" and t = exampleSnapshot]
  by (simp add: exampleConfigMap_def exampleCommon_def)

section \<open>The wire format of the consumer list\<close>

text \<open>
  C8 (amended). For every non-empty consumer list none of whose names holds a comma, joining
  the list with commas, as \<open>operate\<close> does for the configuration resource, and splitting the
  result at the commas, as \<open>updateConfig\<close> does, gives the list back: when the four keys of
  the payload are distinct, the snapshot \<open>updateConfig\<close> publishes from the configuration
  resource that \<open>operate\<close> declares holds the Gateway's consumer list. In the other
  direction, joining the split of any string gives the string back.
\<close>

theorem Split_Join_sensors:
  assumes "Sensors (Spec g) \<noteq> []"
    and "\<forall>x\<in>set (Sensors (Spec g)). CHR '','' \<notin> set x"
  shows "Split (Join (Sensors (Spec g)) '','') (CHR '','') = Sensors (Spec g)
         \<and> Join (Split s (CHR '','')) '','' = s
         \<and> (distinct [common_EventSource cmn, common_EventTypeVersion cmn,
                       common_EventType cmn, common_SensorList cmn]
            \<longrightarrow> (\<exists>c. updateConfig cmn t (gatewayConfigMap cmn g) = (None, t\<lparr>Config := Some c\<rparr>)
                     \<and> tConfig_Sensors c = Sensors (Spec g)))"
proof -
  have sj: "Split (Join (Sensors (Spec g)) '','') (CHR '','') = Sensors (Spec g)"
    using assms by (rule Split_Join)
  then show ?thesis
    by (auto simp: updateConfig_def gatewayConfigMap_def Join_Split)
qed

theorem Split_Join_sensors_witness:
  "Split (Join [''s1'', ''s2''] '','') (CHR '','') = [''s1'', ''s2'']
   \<and> (\<exists>c. updateConfig exampleCommon exampleSnapshot (gatewayConfigMap exampleCommon exampleGateway)
             = (None, exampleSnapshot\<lparr>Config := Some c\<rparr>)
          \<and> tConfig_Sensors c = [''s1'', ''s2''])"
  using Split_Join_sensors [where g = exampleGateway and cmn = exampleCommon and t = exampleSnapshot]
  by (simp add: exampleGateway_def exampleCommon_def)

text \<open>
  C8 as stated fails for the empty consumer list: its join is the empty string, and the
  split of the empty string is the list holding one empty name.
\<close>

theorem Split_Join_empty_counterexample:
  "Split (Join [] '','') (CHR '','') = [[]] \<and> Split (Join [] '','') (CHR '','') \<noteq> []"
  by simp

section \<open>Configurations without a route\<close>

text \<open>
  C10. When the parsed hook has an empty endpoint or an empty method, \<open>RunConfiguration\<close>
  returns nil at once (it does not wait for the stop signal), with the configuration marked
  active and with the route table, the installed handlers and the dispatched events as they
  were.
\<close>

theorem RunConfiguration_without_route:
  assumes "Unmarshal (ConfigData_Config config) = Inr (Some h)"
    and "Endpoint h = [] \<or> Method h = []"
  shows "\<exists>s'. RunConfiguration Unmarshal config s = (Run_Returned None, config\<lparr>Active := True\<rparr>, s')
           \<and> activeRoutes s' = activeRoutes s \<and> handlers s' = handlers s
           \<and> dispatched s' = dispatched s"
  using assms by (auto simp: RunConfiguration_def Let_def)

theorem RunConfiguration_without_route_witness:
  "\<exists>s'. RunConfiguration (\<lambda>doc. Inr (Some \<lparr> Endpoint = ''/hook'', Method = [], hook_Port = ''12000'' \<rparr>))
           exampleConfigData initialState
         = (Run_Returned None, exampleConfigData\<lparr>Active := True\<rparr>, s')
        \<and> activeRoutes s' = Map.empty \<and> handlers s' = Map.empty"
  using RunConfiguration_without_route
    [of "\<lambda>doc. Inr (Some \<lparr> Endpoint = ''/hook'', Method = [], hook_Port = ''12000'' \<rparr>)"
        exampleConfigData "\<lparr> Endpoint = ''/hook'', Method = [], hook_Port = ''12000'' \<rparr>" initialState]
  by (auto simp: initialState_def)

section \<open>The calls a run makes\<close>

lemma call_Gateways_Update_trace:
  "call_Gateways_Update k ns g goc = (err, goc') \<Longrightarrow>
     trace goc' = trace goc @ [EvGatewaysUpdate ns g (gw goc') err]"
  by (auto simp: call_Gateways_Update_def split: prod.splits)

lemma call_Gateways_Get_trace:
  "call_Gateways_Get k ns n goc = (r, goc') \<Longrightarrow>
     trace goc' = trace goc @ [EvGatewaysGet ns n r] \<and> gw goc' = gw goc"
  by (auto simp: call_Gateways_Get_def split: prod.splits)

lemma reapplyUpdate_attempt_trace:
  assumes "reapplyUpdate_attempt cmn k ns goc = (r, goc')"
  shows "\<exists>ext. trace goc' = trace goc @ ext \<and> (\<forall>ev\<in>set ext. is_gateway_call ev)"
  using assms
  by (auto simp: reapplyUpdate_attempt_def split: prod.splits sum.splits option.splits if_splits
      dest!: call_Gateways_Update_trace call_Gateways_Get_trace)

lemma ExponentialBackoff_trace:
  assumes step: "\<And>s r s'. condition s = (r, s') \<Longrightarrow>
            \<exists>ext. trace s' = trace s @ ext \<and> (\<forall>ev\<in>set ext. is_gateway_call ev)"
  shows "ExponentialBackoff n condition s = (err, s') \<Longrightarrow>
         \<exists>ext. trace s' = trace s @ ext \<and> (\<forall>ev\<in>set ext. is_gateway_call ev)"
proof (induction n arbitrary: s)
  case 0
  then show ?case by simp
next
  case (Suc n)
  obtain ok e s1 where c: "condition s = ((ok, e), s1)"
    by (metis prod.exhaust)
  from step[OF c] obtain ext1 where e1: "trace s1 = trace s @ ext1" "\<forall>ev\<in>set ext1. is_gateway_call ev"
    by blast
  show ?case
  proof (cases "e \<noteq> None \<or> ok")
    case True
    with Suc.prems c have "s' = s1" by auto
    with e1 show ?thesis by blast
  next
    case False
    with Suc.prems c have "ExponentialBackoff n condition s1 = (err, s')" by auto
    from Suc.IH[OF this] obtain ext2 where "trace s' = trace s1 @ ext2" "\<forall>ev\<in>set ext2. is_gateway_call ev"
      by blast
    with e1 have "trace s' = trace s @ (ext1 @ ext2)" "\<forall>ev\<in>set (ext1 @ ext2). is_gateway_call ev"
      by auto
    then show ?thesis by blast
  qed
qed

lemma reapplyUpdate_trace:
  "reapplyUpdate cmn k ns goc = (err, goc') \<Longrightarrow>
     \<exists>ext. trace goc' = trace goc @ ext \<and> (\<forall>ev\<in>set ext. is_gateway_call ev)"
  unfolding reapplyUpdate_def
  by (rule ExponentialBackoff_trace[where condition = "reapplyUpdate_attempt cmn k ns"])
     (auto dest: reapplyUpdate_attempt_trace)

lemma updateGateway_trace:
  assumes "updateGateway cmn k ns goc = (err, goc')"
  shows "\<exists>g' e ext. trace goc' = trace goc @ EvGatewaysUpdate ns (gw goc) g' e # ext
           \<and> (\<forall>ev\<in>set ext. is_gateway_call ev)
           \<and> (e = None \<longrightarrow> ext = [] \<and> err = None \<and> gw goc' = g')"
proof -
  obtain e goc1 where c: "call_Gateways_Update k ns (gw goc) goc = (e, goc1)"
    by (metis prod.exhaust)
  note t1 = call_Gateways_Update_trace[OF c]
  show ?thesis
  proof (cases e)
    case None
    with assms c have "err = None" "goc' = goc1" by (auto simp: updateGateway_def)
    with t1 None show ?thesis by auto
  next
    case (Some a)
    with assms c have "reapplyUpdate cmn k ns goc1 = (err, goc')" by (auto simp: updateGateway_def)
    from reapplyUpdate_trace[OF this] obtain ext where "trace goc' = trace goc1 @ ext" "\<forall>ev\<in>set ext. is_gateway_call ev"
      by blast
    with t1 Some show ?thesis by auto
  qed
qed


lemma call_Deployments_Create_trace:
  "call_Deployments_Create k ns d goc = (err, goc') \<Longrightarrow>
     trace goc' = trace goc @ [EvDeploymentsCreate ns d err] \<and> gw goc' = gw goc"
  by (auto simp: call_Deployments_Create_def split: prod.splits)

lemma call_ConfigMaps_Create_trace:
  "call_ConfigMaps_Create k ns cm goc = (err, goc') \<Longrightarrow>
     trace goc' = trace goc @ [EvConfigMapsCreate ns cm err] \<and> gw goc' = gw goc"
  by (auto simp: call_ConfigMaps_Create_def split: prod.splits)

lemma call_Deployments_Get_trace:
  "call_Deployments_Get k ns n goc = (r, goc') \<Longrightarrow>
     trace goc' = trace goc @ [EvDeploymentsGet ns n r] \<and> gw goc' = gw goc"
  by (auto simp: call_Deployments_Get_def split: prod.splits)

lemma call_Deployments_Update_trace:
  "call_Deployments_Update k ns d goc = (err, goc') \<Longrightarrow>
     trace goc' = trace goc @ [EvDeploymentsUpdate ns d err] \<and> gw goc' = gw goc"
  by (auto simp: call_Deployments_Update_def split: prod.splits)

lemma createGatewayService_trace:
  "\<exists>serr. trace (createGatewayService cmn k goc) =
       trace goc @ [EvServicesCreate (Namespace (gw goc)) (gatewayService cmn (gw goc)) serr]
     \<and> gw (createGatewayService cmn k goc) = gw goc"
  by (auto simp: createGatewayService_def call_Services_Create_def split: prod.splits)

lemma operate_New_deploy_trace:
  assumes "operate_New_deploy cmn k gc goc = (out, goc')"
  shows "\<exists>derr svc g g' e post.
      trace goc' = trace goc @ EvDeploymentsCreate (Namespace (gw goc)) (gatewayDeployment cmn (withPullPolicy cmn (gw goc))) derr
                     # svc @ EvGatewaysUpdate gc g g' e # post
    \<and> g = (withPullPolicy cmn (gw goc))\<lparr>Status := (if derr = None then NodePhaseRunning else NodePhaseError)\<rparr>
    \<and> (\<exists>serr. svc = (if derr = None \<and> Port (Service (Spec g)) \<noteq> 0
                      then [EvServicesCreate (Namespace g) (gatewayService cmn g) serr] else []))
    \<and> (\<forall>ev\<in>set post. is_gateway_call ev)
    \<and> (e = None \<longrightarrow> post = [] \<and> out = Returned None)
    \<and> (\<forall>x. out \<noteq> Panicked x)"
proof -
  define goc1 where "goc1 = goc\<lparr>gw := withPullPolicy cmn (gw goc)\<rparr>"
  have g1: "gw goc1 = withPullPolicy cmn (gw goc)" "trace goc1 = trace goc"
    by (simp_all add: goc1_def)
  have ns1: "Namespace (gw goc1) = Namespace (gw goc)"
    by (simp add: goc1_def withPullPolicy_def)
  obtain derr goc2 where c: "call_Deployments_Create k (Namespace (gw goc1)) (gatewayDeployment cmn (gw goc1)) goc1 = (derr, goc2)"
    by (metis prod.exhaust)
  note t2 = call_Deployments_Create_trace[OF c]
  define goc3 where "goc3 = (case derr of
                      Some e \<Rightarrow> goc2\<lparr>gw := (gw goc2)\<lparr>Status := NodePhaseError\<rparr>\<rparr>
                    | None \<Rightarrow>
                        let goc2' = goc2\<lparr>gw := (gw goc2)\<lparr>Status := NodePhaseRunning\<rparr>\<rparr>
                        in if Port (Service (Spec (gw goc2'))) \<noteq> 0 then createGatewayService cmn k goc2'
                           else goc2')"
  define g where "g = (withPullPolicy cmn (gw goc))\<lparr>Status := (if derr = None then NodePhaseRunning else NodePhaseError)\<rparr>"
  have g3: "gw goc3 = g \<and> (\<exists>serr. trace goc3 = trace goc2 @ (if derr = None \<and> Port (Service (Spec g)) \<noteq> 0
                      then [EvServicesCreate (Namespace g) (gatewayService cmn g) serr] else []))"
  proof (cases derr)
    case None
    show ?thesis
    proof (cases "Port (Service (Spec g)) = 0")
      case True
      with None show ?thesis using t2 g1 by (simp add: goc3_def g_def Let_def)
    next
      case False
      from createGatewayService_trace[of cmn k "goc2\<lparr>gw := (gw goc2)\<lparr>Status := NodePhaseRunning\<rparr>\<rparr>"]
      show ?thesis using None False t2 g1 by (auto simp add: goc3_def g_def Let_def)
    qed
  next
    case (Some a)
    then show ?thesis using t2 g1 by (simp add: goc3_def g_def)
  qed
  then obtain serr where tr3: "trace goc3 = trace goc2 @ (if derr = None \<and> Port (Service (Spec g)) \<noteq> 0
                      then [EvServicesCreate (Namespace g) (gatewayService cmn g) serr] else [])"
    and gw3: "gw goc3 = g" by blast
  obtain uerr goc4 where u: "updateGateway cmn k gc goc3 = (uerr, goc4)"
    by (metis prod.exhaust)
  have res: "out = Returned uerr" "goc' = goc4"
    using assms c u unfolding operate_New_deploy_def goc1_def goc3_def Let_def
    by (auto split: option.splits if_splits prod.splits)
  from updateGateway_trace[OF u] obtain g' e post where
    t4: "trace goc4 = trace goc3 @ EvGatewaysUpdate gc (gw goc3) g' e # post"
    and p: "\<forall>ev\<in>set post. is_gateway_call ev"
    and a: "e = None \<longrightarrow> post = [] \<and> uerr = None \<and> gw goc4 = g'"
    by blast
  have "trace goc' = trace goc @ EvDeploymentsCreate (Namespace (gw goc)) (gatewayDeployment cmn (withPullPolicy cmn (gw goc))) derr
                     # (if derr = None \<and> Port (Service (Spec g)) \<noteq> 0
                      then [EvServicesCreate (Namespace g) (gatewayService cmn g) serr] else []) @ EvGatewaysUpdate gc g g' e # post"
    using t4 tr3 t2 g1 ns1 gw3 res by simp
  moreover have "e = None \<longrightarrow> post = [] \<and> out = Returned None" using a res by simp
  moreover have "\<forall>x. out \<noteq> Panicked x" using res by simp
  ultimately show ?thesis using p g_def by blast
qed

lemma deployment_creates_append:
  "deployment_creates (xs @ ys) = deployment_creates xs @ deployment_creates ys"
  by (simp add: deployment_creates_def List.map_filter_def)

lemma service_creates_append:
  "service_creates (xs @ ys) = service_creates xs @ service_creates ys"
  by (simp add: service_creates_def List.map_filter_def)

lemma deployment_creates_Cons:
  "deployment_creates (ev # xs) =
     (case deployment_create ev of None \<Rightarrow> deployment_creates xs | Some r \<Rightarrow> r # deployment_creates xs)"
  by (simp add: deployment_creates_def List.map_filter_def split: option.splits)

lemma service_creates_Cons:
  "service_creates (ev # xs) =
     (case service_create ev of None \<Rightarrow> service_creates xs | Some r \<Rightarrow> r # service_creates xs)"
  by (simp add: service_creates_def List.map_filter_def split: option.splits)

lemma deployment_creates_Nil: "deployment_creates [] = []"
  by (simp add: deployment_creates_def List.map_filter_def)

lemma service_creates_Nil: "service_creates [] = []"
  by (simp add: service_creates_def List.map_filter_def)

lemma gateway_call_no_create:
  "is_gateway_call ev \<Longrightarrow> deployment_create ev = None \<and> service_create ev = None"
  by (cases ev) auto

lemma deployment_creates_gateway_calls:
  "\<forall>ev\<in>set xs. is_gateway_call ev \<Longrightarrow> deployment_creates xs = []"
  by (induction xs) (auto simp: deployment_creates_Nil deployment_creates_Cons gateway_call_no_create)

lemma service_creates_gateway_calls:
  "\<forall>ev\<in>set xs. is_gateway_call ev \<Longrightarrow> service_creates xs = []"
  by (induction xs) (auto simp: service_creates_Nil service_creates_Cons gateway_call_no_create)

lemma persisted_accepted_last:
  "persisted (pre @ [EvGatewaysUpdate ns g g' None]) = Some g"
  by (simp add: persisted_def List.map_filter_def)

lemmas creates_simps =
  deployment_creates_append service_creates_append deployment_creates_Cons service_creates_Cons
  deployment_creates_Nil service_creates_Nil deployment_creates_gateway_calls
  service_creates_gateway_calls

lemma withPullPolicy_Service [simp]: "Service (Spec (withPullPolicy cmn g)) = Service (Spec g)"
  by (simp add: withPullPolicy_def)

lemma withPullPolicy_Status [simp]: "Status (withPullPolicy cmn g) = Status g"
  by (simp add: withPullPolicy_def)

lemma withPullPolicy_Name [simp]:
  "Name (withPullPolicy cmn g) = Name g" "Namespace (withPullPolicy cmn g) = Namespace g"
  by (simp_all add: withPullPolicy_def)

lemma operate_New_cases:
  assumes "operate_New cmn k gc goc = (out, goc')"
  shows "(\<exists>cm goc2. trace goc2 = trace goc @ [EvConfigMapsCreate (Namespace (gw goc)) cm None]
              \<and> gw goc2 = (gw goc)\<lparr>Status := NodePhaseRunning\<rparr>
              \<and> operate_New_deploy cmn k gc goc2 = (out, goc'))
       \<or> (\<exists>cm cerr g g' e post uerr goc3.
              trace goc3 = trace goc @ EvConfigMapsCreate (Namespace (gw goc)) cm (Some cerr)
                             # EvGatewaysUpdate gc g g' e # post
              \<and> g = (gw goc)\<lparr>Status := NodePhaseError\<rparr>
              \<and> (\<forall>ev\<in>set post. is_gateway_call ev)
              \<and> (e = None \<longrightarrow> post = [] \<and> uerr = None \<and> gw goc3 = g')
              \<and> (case uerr of Some ue \<Rightarrow> out = Returned (Some ue) \<and> goc' = goc3
                  | None \<Rightarrow> operate_New_deploy cmn k gc goc3 = (out, goc')))"
proof -
  define goc1 where "goc1 = goc\<lparr>gw := (gw goc)\<lparr>Status := NodePhaseRunning\<rparr>\<rparr>"
  have g1: "gw goc1 = (gw goc)\<lparr>Status := NodePhaseRunning\<rparr>" "trace goc1 = trace goc"
    "Namespace (gw goc1) = Namespace (gw goc)"
    by (simp_all add: goc1_def)
  obtain cerr goc2 where c: "call_ConfigMaps_Create k (Namespace (gw goc1)) (gatewayConfigMap cmn (gw goc1)) goc1 = (cerr, goc2)"
    by (metis prod.exhaust)
  note t2 = call_ConfigMaps_Create_trace[OF c]
  show ?thesis
  proof (cases cerr)
    case None
    with assms c have "operate_New_deploy cmn k gc goc2 = (out, goc')"
      unfolding operate_New_def goc1_def Let_def by auto
    with t2 g1 None show ?thesis by auto
  next
    case (Some ce)
    define goc2e where "goc2e = goc2\<lparr>gw := (gw goc2)\<lparr>Status := NodePhaseError\<rparr>\<rparr>"
    obtain uerr goc3 where u: "updateGateway cmn k gc goc2e = (uerr, goc3)"
      by (metis prod.exhaust)
    from updateGateway_trace[OF u] obtain g' e post where
      t3: "trace goc3 = trace goc2e @ EvGatewaysUpdate gc (gw goc2e) g' e # post"
      and p: "\<forall>ev\<in>set post. is_gateway_call ev"
      and a: "e = None \<longrightarrow> post = [] \<and> uerr = None \<and> gw goc3 = g'"
      by blast
    have r: "case uerr of Some ue \<Rightarrow> out = Returned (Some ue) \<and> goc' = goc3
                  | None \<Rightarrow> operate_New_deploy cmn k gc goc3 = (out, goc')"
      using assms c u Some unfolding operate_New_def goc1_def goc2e_def Let_def
      by (auto split: option.splits)
    have "trace goc3 = trace goc @ EvConfigMapsCreate (Namespace (gw goc)) (gatewayConfigMap cmn (gw goc1)) (Some ce)
                             # EvGatewaysUpdate gc ((gw goc)\<lparr>Status := NodePhaseError\<rparr>) g' e # post"
      using t3 t2 g1 Some by (simp add: goc2e_def)
    with p a r show ?thesis by blast
  qed
qed

lemma operate_New_deploy_outcome:
  assumes d: "operate_New_deploy cmn k gc goc2 = (out, goc')"
    and pre0: "deployment_creates (trace goc2) = []" "service_creates (trace goc2) = []"
    and dc: "map snd (deployment_creates (trace goc')) = [derr]"
  shows "\<exists>g g' e serr pre post.
      trace goc' = pre @ EvGatewaysUpdate gc g g' e # post
    \<and> (\<forall>ev\<in>set post. is_gateway_call ev)
    \<and> Status g = (if derr = None then NodePhaseRunning else NodePhaseError)
    \<and> (e = None \<longrightarrow> out = Returned None \<and> persisted (trace goc') = Some g)
    \<and> service_creates (trace goc') =
        (if derr = None \<and> Port (Service (Spec g)) \<noteq> 0 then [(gatewayService cmn g, serr)] else [])
    \<and> Service (Spec g) = Service (Spec (gw goc2))"
proof -
  from operate_New_deploy_trace[OF d] obtain derr' svc g g' e post serr where
    t: "trace goc' = trace goc2 @ EvDeploymentsCreate (Namespace (gw goc2))
                       (gatewayDeployment cmn (withPullPolicy cmn (gw goc2))) derr'
                     # svc @ EvGatewaysUpdate gc g g' e # post"
    and g: "g = (withPullPolicy cmn (gw goc2))\<lparr>Status := (if derr' = None then NodePhaseRunning else NodePhaseError)\<rparr>"
    and svc: "svc = (if derr' = None \<and> Port (Service (Spec g)) \<noteq> 0
                      then [EvServicesCreate (Namespace g) (gatewayService cmn g) serr] else [])"
    and p: "\<forall>ev\<in>set post. is_gateway_call ev"
    and a: "e = None \<longrightarrow> post = [] \<and> out = Returned None"
    by blast
  have dsvc: "deployment_creates svc = []"
    by (simp add: svc creates_simps)
  have "deployment_creates (trace goc') =
          [(gatewayDeployment cmn (withPullPolicy cmn (gw goc2)), derr')]"
    using p pre0 dsvc by (simp add: t creates_simps)
  with dc have derr: "derr' = derr" by simp
  have sc: "service_creates (trace goc') =
        (if derr = None \<and> Port (Service (Spec g)) \<noteq> 0 then [(gatewayService cmn g, serr)] else [])"
    using p pre0 by (simp add: t svc derr creates_simps)
  have st: "Status g = (if derr = None then NodePhaseRunning else NodePhaseError)"
    by (simp add: g derr)
  have sv: "Service (Spec g) = Service (Spec (gw goc2))"
    by (simp add: g)
  have tr: "trace goc' = (trace goc2 @ EvDeploymentsCreate (Namespace (gw goc2))
                       (gatewayDeployment cmn (withPullPolicy cmn (gw goc2))) derr'
                     # svc) @ EvGatewaysUpdate gc g g' e # post"
    by (simp add: t)
  have pe: "e = None \<longrightarrow> out = Returned None \<and> persisted (trace goc') = Some g"
  proof
    assume e: "e = None"
    with a have "post = []" "out = Returned None" by simp_all
    with tr e show "out = Returned None \<and> persisted (trace goc') = Some g"
      by (simp only: persisted_accepted_last)
  qed
  from tr p st pe sc sv show ?thesis by blast
qed


section \<open>Runs against the scripted client\<close>

lemma scripted_attempt:
  assumes "script_Gateways_Get (world goc) = Inr g # gets"
    and "script_Gateways_Update (world goc) = (go, eo) # ups"
  shows "\<exists>goc'. reapplyUpdate_attempt cmn scripted ns goc =
            ((eo = None,
              case eo of None \<Rightarrow> None
              | Some e \<Rightarrow> if common_IsRetryableKubeAPIError cmn e then None else Some e), goc')
          \<and> script_Gateways_Get (world goc') = gets
          \<and> script_Gateways_Update (world goc') = ups
          \<and> update_attempts (trace goc') = update_attempts (trace goc) + 1"
  using assms
  by (auto simp: reapplyUpdate_attempt_def call_Gateways_Get_def call_Gateways_Update_def
      scripted_def update_attempts_def split: option.splits)

lemma backoff_scripted:
  assumes "script_Gateways_Update (world goc) = map (\<lambda>(g, e). (g, Some e)) conflicts @ (g', final) # rest"
    and "\<forall>(g, e)\<in>set conflicts. common_IsRetryableKubeAPIError cmn e"
    and "case final of None \<Rightarrow> True | Some e \<Rightarrow> \<not> common_IsRetryableKubeAPIError cmn e"
    and "script_Gateways_Get (world goc) = map Inr fetched @ moreGets"
    and "length fetched = Suc (length conflicts)"
    and "length conflicts < n"
  shows "\<exists>goc'. ExponentialBackoff n (reapplyUpdate_attempt cmn scripted ns) goc = (final, goc')
          \<and> update_attempts (trace goc') = update_attempts (trace goc) + length conflicts + 1"
  using assms
proof (induction conflicts arbitrary: goc fetched n)
  case Nil
  then obtain m where n: "n = Suc m" by (cases n) auto
  from Nil obtain g where f: "fetched = [g]" by (cases fetched) auto
  from Nil f have gets: "script_Gateways_Get (world goc) = Inr g # moreGets" by simp
  from Nil have ups: "script_Gateways_Update (world goc) = (g', final) # rest" by simp
  from scripted_attempt[OF gets ups, of cmn ns] Nil.prems(3) show ?case
    by (auto simp: n split: option.splits)
next
  case (Cons c cs)
  obtain g1 e1 where c: "c = (g1, e1)" by (cases c)
  from Cons.prems obtain m where n: "n = Suc m" "length cs < m" by (cases n) auto
  from Cons.prems obtain g ft where f: "fetched = g # ft" "length ft = Suc (length cs)"
    by (cases fetched) auto
  from Cons.prems f have gets: "script_Gateways_Get (world goc) = Inr g # (map Inr ft @ moreGets)" by simp
  from Cons.prems c have ups: "script_Gateways_Update (world goc) =
      (g1, Some e1) # (map (\<lambda>(g, e). (g, Some e)) cs @ (g', final) # rest)" by simp
  from Cons.prems c have r: "common_IsRetryableKubeAPIError cmn e1" by simp
  from scripted_attempt[OF gets ups, of cmn ns] r obtain goc1 where
    a: "reapplyUpdate_attempt cmn scripted ns goc = ((False, None), goc1)"
    and g1: "script_Gateways_Get (world goc1) = map Inr ft @ moreGets"
    and u1: "script_Gateways_Update (world goc1) = map (\<lambda>(g, e). (g, Some e)) cs @ (g', final) # rest"
    and t1: "update_attempts (trace goc1) = update_attempts (trace goc) + 1"
    by auto
  from Cons.prems have rs: "\<forall>(g, e)\<in>set cs. common_IsRetryableKubeAPIError cmn e" by simp
  from Cons.IH[OF u1 rs Cons.prems(3) g1 f(2) n(2)] obtain goc' where
    "ExponentialBackoff m (reapplyUpdate_attempt cmn scripted ns) goc1 = (final, goc')"
    "update_attempts (trace goc') = update_attempts (trace goc1) + length cs + 1"
    by blast
  with a t1 show ?case by (simp add: n)
qed


lemma backoff_exhausted:
  assumes "script_Gateways_Update (world goc) = map (\<lambda>(g, e). (g, Some e)) conflicts @ rest"
    and "\<forall>(g, e)\<in>set conflicts. common_IsRetryableKubeAPIError cmn e"
    and "script_Gateways_Get (world goc) = map Inr fetched @ moreGets"
    and "length fetched = n" and "length conflicts = n"
  shows "\<exists>goc'. ExponentialBackoff n (reapplyUpdate_attempt cmn scripted ns) goc = (Some ErrWaitTimeout, goc')
          \<and> update_attempts (trace goc') = update_attempts (trace goc) + n"
  using assms
proof (induction n arbitrary: goc fetched conflicts)
  case 0
  then show ?case by simp
next
  case (Suc n)
  from Suc.prems obtain g ft where f: "fetched = g # ft" "length ft = n" by (cases fetched) auto
  from Suc.prems obtain g1 e1 cs where c: "conflicts = (g1, e1) # cs" "length cs = n" by (cases conflicts) auto
  from Suc.prems f have gets: "script_Gateways_Get (world goc) = Inr g # (map Inr ft @ moreGets)" by simp
  from Suc.prems c have ups: "script_Gateways_Update (world goc) =
      (g1, Some e1) # (map (\<lambda>(g, e). (g, Some e)) cs @ rest)" by simp
  from Suc.prems c have r: "common_IsRetryableKubeAPIError cmn e1" by simp
  from scripted_attempt[OF gets ups, of cmn ns] r obtain goc1 where
    a: "reapplyUpdate_attempt cmn scripted ns goc = ((False, None), goc1)"
    and g1: "script_Gateways_Get (world goc1) = map Inr ft @ moreGets"
    and u1: "script_Gateways_Update (world goc1) = map (\<lambda>(g, e). (g, Some e)) cs @ rest"
    and t1: "update_attempts (trace goc1) = update_attempts (trace goc) + 1"
    by auto
  from Suc.prems c have rs: "\<forall>(g, e)\<in>set cs. common_IsRetryableKubeAPIError cmn e" by simp
  from Suc.IH[OF u1 rs g1 f(2) c(2)] obtain goc' where
    "ExponentialBackoff n (reapplyUpdate_attempt cmn scripted ns) goc1 = (Some ErrWaitTimeout, goc')"
    "update_attempts (trace goc') = update_attempts (trace goc1) + n"
    by blast
  with a t1 show ?case by simp
qed


lemmas run_defs = operate_def operate_New_def operate_New_deploy_def operate_Error_def updateGateway_def Let_def
     call_ConfigMaps_Create_def call_Deployments_Create_def call_Services_Create_def call_Gateways_Update_def
     call_Deployments_Get_def call_Deployments_Update_def call_Gateways_Get_def
     createGatewayService_def withPullPolicy_def
     scripted_def noScript_def newGatewayOperationCtx_def validate_def



section \<open>The repair of a Gateway in error\<close>



section \<open>The retry helper\<close>

text \<open>
  C3 (amended). Let the client answer the update calls of \<open>reapplyUpdate\<close> with N errors
  that \<open>common.IsRetryableKubeAPIError\<close> accepts, followed by a last answer that is either
  success or an error it rejects, and let each of the N+1 fetches succeed. If N is smaller
  than the step count of \<open>common.DefaultRetry\<close>, \<open>reapplyUpdate\<close> makes exactly N+1 update
  attempts and returns the last answer: success, or the non-retryable error (one attempt
  when it comes first).
\<close>

theorem reapplyUpdate_attempts:
  assumes "script_Gateways_Update (world goc) = map (\<lambda>(g, e). (g, Some e)) conflicts @ (g', final) # rest"
    and "\<forall>(g, e)\<in>set conflicts. common_IsRetryableKubeAPIError cmn e"
    and "case final of None \<Rightarrow> True | Some e \<Rightarrow> \<not> common_IsRetryableKubeAPIError cmn e"
    and "script_Gateways_Get (world goc) = map Inr fetched @ moreGets"
    and "length fetched = Suc (length conflicts)"
    and "int (length conflicts) < common_DefaultRetry_Steps cmn"
  shows "\<exists>goc'. reapplyUpdate cmn scripted gatewayClient goc = (final, goc')
           \<and> update_attempts (trace goc') = update_attempts (trace goc) + length conflicts + 1"
proof -
  from assms(6) have "length conflicts < nat (common_DefaultRetry_Steps cmn)" by simp
  from backoff_scripted[OF assms(1-5) this] show ?thesis
    by (simp add: reapplyUpdate_def)
qed

theorem reapplyUpdate_attempts_witness:
  "(\<exists>goc'. reapplyUpdate exampleCommon scripted ''argo-events'' (conflictsCtx 2) = (None, goc')
           \<and> update_attempts (trace goc') = 3)
   \<and> (\<exists>goc'. reapplyUpdate exampleCommon scripted ''argo-events'' forbiddenCtx
               = (Some (StatusError ''forbidden''), goc')
           \<and> update_attempts (trace goc') = 1)"
proof -
  have a: "\<exists>goc'. reapplyUpdate exampleCommon scripted ''argo-events'' (conflictsCtx 2) = (None, goc')
           \<and> update_attempts (trace goc') = update_attempts (trace (conflictsCtx 2))
                + length [(None :: Gateway option, StatusError ''conflict''), (None, StatusError ''conflict'')] + 1"
    by (rule reapplyUpdate_attempts[where g' = None and rest = "[]" and moreGets = "[]"
          and fetched = "[exampleGateway, exampleGateway, exampleGateway]"])
       (simp_all add: conflictsCtx_def newGatewayOperationCtx_def noScript_def exampleCommon_def
          eval_nat_numeral)
  have b: "\<exists>goc'. reapplyUpdate exampleCommon scripted ''argo-events'' forbiddenCtx
               = (Some (StatusError ''forbidden''), goc')
           \<and> update_attempts (trace goc') = update_attempts (trace forbiddenCtx)
                + length ([] :: (Gateway option \<times> error) list) + 1"
    by (rule reapplyUpdate_attempts[where g' = None and rest = "[]" and moreGets = "[]"
          and fetched = "[exampleGateway]"])
       (simp_all add: forbiddenCtx_def newGatewayOperationCtx_def noScript_def exampleCommon_def)
  have z: "update_attempts (trace (conflictsCtx 2)) = 0" "update_attempts (trace forbiddenCtx) = 0"
    by (simp_all add: conflictsCtx_def forbiddenCtx_def newGatewayOperationCtx_def update_attempts_def)
  from a b show ?thesis
    unfolding z by (simp add: eval_nat_numeral)
qed

text \<open>
  C3 as stated fails once N reaches the step count: with five steps and five conflicts
  before the success, \<open>reapplyUpdate\<close> gives up with the timeout error after five attempts.
\<close>

theorem reapplyUpdate_attempts_counterexample:
  "fst (reapplyUpdate exampleCommon scripted ''argo-events'' (conflictsCtx 5)) = Some ErrWaitTimeout
   \<and> update_attempts (trace (snd (reapplyUpdate exampleCommon scripted ''argo-events'' (conflictsCtx 5)))) = 5"
  by (simp add: reapplyUpdate_def exampleCommon_def eval_nat_numeral reapplyUpdate_attempt_def
      call_Gateways_Get_def call_Gateways_Update_def scripted_def update_attempts_def
      conflictsCtx_def noScript_def newGatewayOperationCtx_def)

section \<open>The provisioning of a new Gateway\<close>

text \<open>
  C1 (amended). For every Gateway with status \<open>New\<close> that passes validation, in a run of
  \<open>operate\<close> that makes its deployment create: after the create the run writes the Gateway
  it holds with status \<open>Running\<close> when the create was accepted and \<open>Error\<close> when it was
  refused; when that write is accepted \<open>operate\<close> returns nil and the Gateway persisted is
  that one. A service create is attempted, once, if and only if the deployment create was
  accepted and the service port of that Gateway is non-zero, and a service resource is created
  if and only if that attempt is accepted too; when the deployment create was refused no
  service create is attempted. The service specification of the Gateway written is the one
  of the Gateway \<open>operate\<close> started from whenever the configuration resource was created.
\<close>

theorem operate_New_outcome:
  assumes new: "Status (gw goc) = NodePhaseNew" and valid: "validate (gw goc) = None"
    and tr0: "trace goc = []"
    and run: "operate cmn k goc = (out, goc')"
    and dc: "map snd (deployment_creates (trace goc')) = [derr]"
  shows "\<exists>g g' e serr pre post.
      trace goc' = pre @ EvGatewaysUpdate (Namespace (gw goc)) g g' e # post
    \<and> (\<forall>ev\<in>set post. is_gateway_call ev)
    \<and> Status g = (if derr = None then NodePhaseRunning else NodePhaseError)
    \<and> (e = None \<longrightarrow> out = Returned None \<and> persisted (trace goc') = Some g)
    \<and> service_creates (trace goc') =
        (if derr = None \<and> Port (Service (Spec g)) \<noteq> 0 then [(gatewayService cmn g, serr)] else [])
    \<and> services_created (trace goc') =
        (if derr = None \<and> Port (Service (Spec g)) \<noteq> 0 \<and> serr = None then [gatewayService cmn g] else [])
    \<and> ((\<forall>ns cm cerr. EvConfigMapsCreate ns cm cerr \<in> set (trace goc') \<longrightarrow> cerr = None)
         \<longrightarrow> Service (Spec g) = Service (Spec (gw goc)))"
proof -
  from run new valid have n: "operate_New cmn k (Namespace (gw goc)) goc = (out, goc')"
    by (simp add: operate_def)
  have main: "\<exists>g g' e serr pre post.
      trace goc' = pre @ EvGatewaysUpdate (Namespace (gw goc)) g g' e # post
    \<and> (\<forall>ev\<in>set post. is_gateway_call ev)
    \<and> Status g = (if derr = None then NodePhaseRunning else NodePhaseError)
    \<and> (e = None \<longrightarrow> out = Returned None \<and> persisted (trace goc') = Some g)
    \<and> service_creates (trace goc') =
        (if derr = None \<and> Port (Service (Spec g)) \<noteq> 0 then [(gatewayService cmn g, serr)] else [])
    \<and> ((\<forall>ns cm cerr. EvConfigMapsCreate ns cm cerr \<in> set (trace goc') \<longrightarrow> cerr = None)
         \<longrightarrow> Service (Spec g) = Service (Spec (gw goc)))"
    using operate_New_cases[OF n]
  proof (elim disjE exE conjE)
    fix cm goc2
    assume t2: "trace goc2 = trace goc @ [EvConfigMapsCreate (Namespace (gw goc)) cm None]"
      and g2: "gw goc2 = (gw goc)\<lparr>Status := NodePhaseRunning\<rparr>"
      and d: "operate_New_deploy cmn k (Namespace (gw goc)) goc2 = (out, goc')"
    have pre0: "deployment_creates (trace goc2) = []" "service_creates (trace goc2) = []"
      by (simp_all add: t2 tr0 creates_simps)
    from operate_New_deploy_outcome[OF d pre0 dc] obtain g g' e serr pre post where
      f: "trace goc' = pre @ EvGatewaysUpdate (Namespace (gw goc)) g g' e # post"
        "\<forall>ev\<in>set post. is_gateway_call ev"
        "Status g = (if derr = None then NodePhaseRunning else NodePhaseError)"
        "e = None \<longrightarrow> out = Returned None \<and> persisted (trace goc') = Some g"
        "service_creates (trace goc') =
          (if derr = None \<and> Port (Service (Spec g)) \<noteq> 0 then [(gatewayService cmn g, serr)] else [])"
        "Service (Spec g) = Service (Spec (gw goc2))"
      by blast
    from f(6) g2 have "Service (Spec g) = Service (Spec (gw goc))" by simp
    with f(1-5) show ?thesis by blast
  next
    fix cm cerr g1 g1' e1 post1 uerr goc3
    assume t3: "trace goc3 = trace goc @ EvConfigMapsCreate (Namespace (gw goc)) cm (Some cerr)
                             # EvGatewaysUpdate (Namespace (gw goc)) g1 g1' e1 # post1"
      and p1: "\<forall>ev\<in>set post1. is_gateway_call ev"
      and r: "case uerr of Some ue \<Rightarrow> out = Returned (Some ue) \<and> goc' = goc3
                  | None \<Rightarrow> operate_New_deploy cmn k (Namespace (gw goc)) goc3 = (out, goc')"
    have pre0: "deployment_creates (trace goc3) = []" "service_creates (trace goc3) = []"
      using p1 by (simp_all add: t3 tr0 creates_simps)
    show ?thesis
    proof (cases uerr)
      case (Some ue)
      with r have "goc' = goc3" by simp
      with pre0 dc show ?thesis by simp
    next
      case None
      with r have d: "operate_New_deploy cmn k (Namespace (gw goc)) goc3 = (out, goc')" by simp
      from operate_New_deploy_trace[OF d] obtain ext where "trace goc' = trace goc3 @ ext" by auto
      with t3 have "EvConfigMapsCreate (Namespace (gw goc)) cm (Some cerr) \<in> set (trace goc')" by simp
      then have "\<not> (\<forall>ns cm cerr. EvConfigMapsCreate ns cm cerr \<in> set (trace goc') \<longrightarrow> cerr = None)"
        by blast
      then have nocm: "(\<forall>ns cm cerr. EvConfigMapsCreate ns cm cerr \<in> set (trace goc') \<longrightarrow> cerr = None)
         \<longrightarrow> Service (Spec g) = Service (Spec (gw goc))" for g :: Gateway
        by blast
      from operate_New_deploy_outcome[OF d pre0 dc] obtain g g' e serr pre post where
        f: "trace goc' = pre @ EvGatewaysUpdate (Namespace (gw goc)) g g' e # post"
          "\<forall>ev\<in>set post. is_gateway_call ev"
          "Status g = (if derr = None then NodePhaseRunning else NodePhaseError)"
          "e = None \<longrightarrow> out = Returned None \<and> persisted (trace goc') = Some g"
          "service_creates (trace goc') =
            (if derr = None \<and> Port (Service (Spec g)) \<noteq> 0 then [(gatewayService cmn g, serr)] else [])"
        by blast
      with nocm[of g] show ?thesis by blast
    qed
  qed
  then obtain g g' e serr pre post where
    f: "trace goc' = pre @ EvGatewaysUpdate (Namespace (gw goc)) g g' e # post"
      "\<forall>ev\<in>set post. is_gateway_call ev"
      "Status g = (if derr = None then NodePhaseRunning else NodePhaseError)"
      "e = None \<longrightarrow> out = Returned None \<and> persisted (trace goc') = Some g"
      "service_creates (trace goc') =
        (if derr = None \<and> Port (Service (Spec g)) \<noteq> 0 then [(gatewayService cmn g, serr)] else [])"
      "(\<forall>ns cm cerr. EvConfigMapsCreate ns cm cerr \<in> set (trace goc') \<longrightarrow> cerr = None)
         \<longrightarrow> Service (Spec g) = Service (Spec (gw goc))"
    by blast
  from f(5) have "services_created (trace goc') =
        (if derr = None \<and> Port (Service (Spec g)) \<noteq> 0 \<and> serr = None then [gatewayService cmn g] else [])"
    by (simp add: services_created_def)
  with f show ?thesis by blast
qed

theorem operate_New_outcome_witness:
  "\<exists>g serr. service_creates (trace (snd (operate exampleCommon scripted exampleCtx)))
               = [(gatewayService exampleCommon g, serr)]
     \<and> Status g = NodePhaseRunning
     \<and> Port (Service (Spec g)) = 9000"
proof -
  have h1: "Status (gw exampleCtx) = NodePhaseNew"
    by (simp add: exampleCtx_def newGatewayOperationCtx_def exampleGateway_def)
  have h2: "validate (gw exampleCtx) = None"
    by (simp add: exampleCtx_def newGatewayOperationCtx_def validate_def exampleGateway_def)
  have h3: "trace exampleCtx = []"
    by (simp add: exampleCtx_def newGatewayOperationCtx_def)
  have h4: "operate exampleCommon scripted exampleCtx =
      (fst (operate exampleCommon scripted exampleCtx), snd (operate exampleCommon scripted exampleCtx))"
    by simp
  have h5: "map snd (deployment_creates (trace (snd (operate exampleCommon scripted exampleCtx)))) = [None]"
    by (simp add: run_defs exampleCtx_def exampleGateway_def deployment_creates_def List.map_filter_def)
  have cm: "\<forall>ns cm cerr. EvConfigMapsCreate ns cm cerr
              \<in> set (trace (snd (operate exampleCommon scripted exampleCtx))) \<longrightarrow> cerr = None"
    by (simp add: run_defs exampleCtx_def exampleGateway_def)
  from operate_New_outcome[OF h1 h2 h3 h4 h5] obtain g serr where
    sc: "service_creates (trace (snd (operate exampleCommon scripted exampleCtx))) =
        (if None = (None :: error option) \<and> Port (Service (Spec g)) \<noteq> 0
         then [(gatewayService exampleCommon g, serr)] else [])"
    and st: "Status g = (if None = (None :: error option) then NodePhaseRunning else NodePhaseError)"
    and sv: "(\<forall>ns cm cerr. EvConfigMapsCreate ns cm cerr
              \<in> set (trace (snd (operate exampleCommon scripted exampleCtx))) \<longrightarrow> cerr = None)
         \<longrightarrow> Service (Spec g) = Service (Spec (gw exampleCtx))"
    by (elim exE conjE)
  from sv cm have "Service (Spec g) = Service (Spec (gw exampleCtx))" by (rule mp)
  then have port: "Port (Service (Spec g)) = 9000"
    by (simp add: exampleCtx_def newGatewayOperationCtx_def exampleGateway_def)
  with sc have "service_creates (trace (snd (operate exampleCommon scripted exampleCtx)))
               = [(gatewayService exampleCommon g, serr)]" by simp
  moreover from st have "Status g = NodePhaseRunning" by simp
  ultimately show ?thesis using port
    by (intro exI conjI)
qed

lemma exampleCommon_retry:
  "nat (common_DefaultRetry_Steps exampleCommon) = 5"
  "\<not> common_IsRetryableKubeAPIError exampleCommon (StatusError ''forbidden'')"
  by (simp_all add: exampleCommon_def)

lemma ExponentialBackoff_first:
  "ExponentialBackoff 5 condition s =
     (case condition s of
        ((ok, err), s') \<Rightarrow>
          if err \<noteq> None \<or> ok then (err, s') else ExponentialBackoff 4 condition s')"
proof -
  have "(5::nat) = Suc 4" by simp
  then show ?thesis by (simp only: ExponentialBackoff.simps)
qed

text \<open>
  C1 as stated fails when the service create is refused: the deployment create is accepted
  and the port is 9000, the status persisted is \<open>Running\<close>, and no service resource is
  created (\<open>createGatewayService\<close> fails silently). It also fails when the status write and
  its retry are refused with an error that is not retryable: the deployment create is
  accepted, \<open>operate\<close> returns the error and no status is persisted.
\<close>

theorem operate_New_service_counterexample:
  "(map snd (deployment_creates (trace (snd (operate exampleCommon scripted serviceRefusedCtx)))) = [None]
    \<and> Port (Service (Spec (gw serviceRefusedCtx))) = 9000
    \<and> Port (Service (Spec (gw serviceRefusedCtx))) \<noteq> 0
    \<and> map snd (service_creates (trace (snd (operate exampleCommon scripted serviceRefusedCtx))))
        = [Some (StatusError ''forbidden'')]
    \<and> services_created (trace (snd (operate exampleCommon scripted serviceRefusedCtx))) = []
    \<and> map_option Status (persisted (trace (snd (operate exampleCommon scripted serviceRefusedCtx))))
        = Some NodePhaseRunning)
   \<and> (map snd (deployment_creates (trace (snd (operate exampleCommon scripted updateRefusedCtx)))) = [None]
    \<and> fst (operate exampleCommon scripted updateRefusedCtx) = Returned (Some (StatusError ''forbidden''))
    \<and> persisted (trace (snd (operate exampleCommon scripted updateRefusedCtx))) = None)"
proof (rule conjI)
  show "map snd (deployment_creates (trace (snd (operate exampleCommon scripted serviceRefusedCtx)))) = [None]
    \<and> Port (Service (Spec (gw serviceRefusedCtx))) = 9000
    \<and> Port (Service (Spec (gw serviceRefusedCtx))) \<noteq> 0
    \<and> map snd (service_creates (trace (snd (operate exampleCommon scripted serviceRefusedCtx))))
        = [Some (StatusError ''forbidden'')]
    \<and> services_created (trace (snd (operate exampleCommon scripted serviceRefusedCtx))) = []
    \<and> map_option Status (persisted (trace (snd (operate exampleCommon scripted serviceRefusedCtx))))
        = Some NodePhaseRunning"
    by (simp add: run_defs serviceRefusedCtx_def exampleGateway_def deployment_creates_def
        service_creates_def services_created_def persisted_def List.map_filter_def)
  show "map snd (deployment_creates (trace (snd (operate exampleCommon scripted updateRefusedCtx)))) = [None]
    \<and> fst (operate exampleCommon scripted updateRefusedCtx) = Returned (Some (StatusError ''forbidden''))
    \<and> persisted (trace (snd (operate exampleCommon scripted updateRefusedCtx))) = None"
    by (simp add: run_defs updateRefusedCtx_def exampleGateway_def deployment_creates_def
        persisted_def List.map_filter_def reapplyUpdate_def reapplyUpdate_attempt_def
        exampleCommon_retry ExponentialBackoff_first)
qed

section \<open>A refused configuration resource\<close>

text \<open>
  C4. The run of \<open>operate\<close> on a Gateway with status \<open>New\<close> whose configuration-resource
  create is refused while every other call is accepted: the status \<open>Error\<close> is written, the
  branch then goes on to the deployment, and the status written last, which is the one
  persisted at the end of the pass, is \<open>Running\<close>.
\<close>

theorem operate_New_configmap_failure:
  "Status (gw configMapRefusedCtx) = NodePhaseNew
   \<and> validate (gw configMapRefusedCtx) = None
   \<and> fst (operate exampleCommon scripted configMapRefusedCtx) = Returned None
   \<and> map (\<lambda>ev. case ev of EvConfigMapsCreate ns cm err \<Rightarrow> err | _ \<Rightarrow> None)
        (take 1 (trace (snd (operate exampleCommon scripted configMapRefusedCtx))))
       = [Some (StatusError ''already exists'')]
   \<and> map Status (List.map_filter accepted_update
        (trace (snd (operate exampleCommon scripted configMapRefusedCtx))))
       = [NodePhaseError, NodePhaseRunning]
   \<and> map_option Status (persisted (trace (snd (operate exampleCommon scripted configMapRefusedCtx))))
       = Some NodePhaseRunning"
  by (simp add: run_defs configMapRefusedCtx_def exampleGateway_def persisted_def List.map_filter_def)

section \<open>The name of the deployment\<close>

lemma validate_Status [simp]: "validate (g\<lparr>Status := s\<rparr>) = validate g"
  by (auto simp: validate_def split: DispatchMechanism.splits option.splits)

lemma gatewayDeployment_Name:
  "Name (gatewayDeployment cmn g) = common_DefaultGatewayDeploymentName cmn (Name g)"
  by (simp add: gatewayDeployment_def)

lemma operate_Error_first_call:
  "\<exists>r rest. trace (snd (operate_Error cmn k gc goc)) =
       trace goc @ EvDeploymentsGet (Namespace (gw goc)) (Name (gw goc)) r # rest"
proof -
  obtain r goc1 where c1: "call_Deployments_Get k (Namespace (gw goc)) (Name (gw goc)) goc = (r, goc1)"
    by (metis prod.exhaust)
  note t1 = call_Deployments_Get_trace[OF c1]
  show ?thesis
  proof (cases r)
    case (Inl e)
    with c1 have "snd (operate_Error cmn k gc goc) = goc1" by (simp add: operate_Error_def)
    with t1 show ?thesis by simp
  next
    case (Inr dd)
    show ?thesis
    proof (cases "Containers (PodTemplateSpec_Spec (Template (Deployment_Spec dd)))")
      case Nil
      with c1 Inr have "snd (operate_Error cmn k gc goc) = goc1" by (simp add: operate_Error_def)
      with t1 show ?thesis by simp
    next
      case (Cons c cs)
      define dd' where "dd' = dd\<lparr>Deployment_Spec := (Deployment_Spec dd)
              \<lparr>Template := (Template (Deployment_Spec dd))
                \<lparr>PodTemplateSpec_Spec := (PodTemplateSpec_Spec (Template (Deployment_Spec dd)))
                   \<lparr>Containers := c\<lparr>Container_Image := Image (Spec (gw goc1))\<rparr> # cs\<rparr>\<rparr>\<rparr>\<rparr>"
      obtain uerr goc2 where c2: "call_Deployments_Update k (Namespace (gw goc1)) dd' goc1 = (uerr, goc2)"
        by (metis prod.exhaust)
      note t2 = call_Deployments_Update_trace[OF c2]
      show ?thesis
      proof (cases uerr)
        case (Some ue)
        with c1 c2 Inr Cons have "snd (operate_Error cmn k gc goc) = goc2"
          by (simp add: operate_Error_def Let_def dd'_def)
        with t1 t2 show ?thesis by simp
      next
        case None
        obtain gerr goc3 where u: "updateGateway cmn k gc (goc2\<lparr>gw := (gw goc2)\<lparr>Status := NodePhaseRunning\<rparr>\<rparr>) = (gerr, goc3)"
          by (metis prod.exhaust)
        with c1 c2 Inr Cons None have "snd (operate_Error cmn k gc goc) = goc3"
          by (auto simp add: operate_Error_def Let_def dd'_def split: option.splits)
        moreover from updateGateway_trace[OF u] obtain ext where
          "trace goc3 = trace goc2 @ ext" by auto
        ultimately show ?thesis using t1 t2 by simp
      qed
    qed
  qed
qed

lemma operate_New_accepted:
  assumes "fst (ConfigMaps_Create k (Namespace (gw goc))
                 (gatewayConfigMap cmn ((gw goc)\<lparr>Status := NodePhaseRunning\<rparr>)) (world goc)) = None"
  shows "\<exists>goc2. operate_New cmn k gc goc = operate_New_deploy cmn k gc goc2
           \<and> gw goc2 = (gw goc)\<lparr>Status := NodePhaseRunning\<rparr>
           \<and> deployment_creates (trace goc2) = deployment_creates (trace goc)"
  using assms
  by (auto simp: operate_New_def call_ConfigMaps_Create_def Let_def creates_simps split: prod.splits)


text \<open>
  C6. For a Gateway that passes validation: run in status \<open>New\<close> with the configuration
  resource created, \<open>operate\<close> creates its deployment under the name
  \<open>common.DefaultGatewayDeploymentName\<close> gives for the Gateway's name; run in status
  \<open>Error\<close>, the first call of \<open>operate\<close> fetches the deployment named as the Gateway itself.
  Wherever the naming helper changes the name, the deployment fetched is not the one created.
\<close>

theorem operate_Error_fetch_name:
  assumes valid: "validate g = None"
    and accepted: "fst (ConfigMaps_Create k (Namespace g)
                     (gatewayConfigMap cmn (g\<lparr>Status := NodePhaseRunning\<rparr>)) w) = None"
    and differs: "common_DefaultGatewayDeploymentName cmn (Name g) \<noteq> Name g"
  shows "\<exists>d derr r rest.
      deployment_creates
        (trace (snd (operate cmn k (newGatewayOperationCtx (g\<lparr>Status := NodePhaseNew\<rparr>) w)))) = [(d, derr)]
    \<and> Name d = common_DefaultGatewayDeploymentName cmn (Name g)
    \<and> trace (snd (operate cmn k (newGatewayOperationCtx (g\<lparr>Status := NodePhaseError\<rparr>) w')))
        = EvDeploymentsGet (Namespace g) (Name g) r # rest
    \<and> Name d \<noteq> Name g"
proof -
  define gocN where "gocN = newGatewayOperationCtx (g\<lparr>Status := NodePhaseNew\<rparr>) w"
  define gocE where "gocE = newGatewayOperationCtx (g\<lparr>Status := NodePhaseError\<rparr>) w'"
  have gN: "gw gocN = g\<lparr>Status := NodePhaseNew\<rparr>" "world gocN = w" "trace gocN = []"
    by (simp_all add: gocN_def newGatewayOperationCtx_def)
  have gE: "gw gocE = g\<lparr>Status := NodePhaseError\<rparr>" "trace gocE = []"
    by (simp_all add: gocE_def newGatewayOperationCtx_def)
  have oN: "operate cmn k gocN = operate_New cmn k (Namespace g) gocN"
    using valid by (simp add: operate_def gN)
  have oE: "operate cmn k gocE = operate_Error cmn k (Namespace g) gocE"
    using valid by (simp add: operate_def gE)
  from operate_Error_first_call[of cmn k "Namespace g" gocE] obtain r rest where
    tE: "trace (snd (operate cmn k gocE)) = EvDeploymentsGet (Namespace g) (Name g) r # rest"
    unfolding oE by (auto simp: gE)
  have acc: "fst (ConfigMaps_Create k (Namespace (gw gocN))
                 (gatewayConfigMap cmn ((gw gocN)\<lparr>Status := NodePhaseRunning\<rparr>)) (world gocN)) = None"
    using accepted by (simp add: gN)
  from operate_New_accepted[OF acc, of "Namespace g"] obtain goc2 where
    n2: "operate_New cmn k (Namespace g) gocN = operate_New_deploy cmn k (Namespace g) goc2"
    and g2: "gw goc2 = (gw gocN)\<lparr>Status := NodePhaseRunning\<rparr>"
    and d2: "deployment_creates (trace goc2) = deployment_creates (trace gocN)"
    by blast
  obtain out goc' where d: "operate_New_deploy cmn k (Namespace g) goc2 = (out, goc')"
    by (metis prod.exhaust)
  from operate_New_deploy_trace[OF d] obtain derr svc gg g' e post where
    t: "trace goc' = trace goc2 @ EvDeploymentsCreate (Namespace (gw goc2))
                       (gatewayDeployment cmn (withPullPolicy cmn (gw goc2))) derr
                     # svc @ EvGatewaysUpdate (Namespace g) gg g' e # post"
    and svc: "\<exists>serr. svc = (if derr = None \<and> Port (Service (Spec gg)) \<noteq> 0
                      then [EvServicesCreate (Namespace gg) (gatewayService cmn gg) serr] else [])"
    and p: "\<forall>ev\<in>set post. is_gateway_call ev"
    by blast
  from svc have dsvc: "deployment_creates svc = []"
    by (auto simp: creates_simps)
  have dc: "deployment_creates (trace goc') =
      [(gatewayDeployment cmn (withPullPolicy cmn (gw goc2)), derr)]"
    using p d2 dsvc by (simp add: t gN creates_simps)
  have nm: "Name (gatewayDeployment cmn (withPullPolicy cmn (gw goc2)))
      = common_DefaultGatewayDeploymentName cmn (Name g)"
    by (simp add: gatewayDeployment_Name g2 gN)
  have tN: "deployment_creates (trace (snd (operate cmn k gocN))) =
      [(gatewayDeployment cmn (withPullPolicy cmn (gw goc2)), derr)]"
    using dc d n2 oN by simp
  have ne: "Name (gatewayDeployment cmn (withPullPolicy cmn (gw goc2))) \<noteq> Name g"
    using differs by (simp only: nm not_False_eq_True)
  show ?thesis
    by (intro exI conjI) (rule tN[unfolded gocN_def] nm tE[unfolded gocE_def] ne)+
qed

theorem operate_Error_fetch_name_witness:
  "\<exists>d derr r rest.
      deployment_creates (trace (snd (operate exampleCommon scripted
          (newGatewayOperationCtx (exampleGateway\<lparr>Status := NodePhaseNew\<rparr>) noScript)))) = [(d, derr)]
    \<and> Name d = ''webhook-gateway-deployment''
    \<and> trace (snd (operate exampleCommon scripted
          (newGatewayOperationCtx (exampleGateway\<lparr>Status := NodePhaseError\<rparr>) noScript)))
        = EvDeploymentsGet ''argo-events'' ''webhook'' r # rest"
proof -
  have h1: "validate exampleGateway = None"
    by (simp add: validate_def exampleGateway_def)
  have h2: "fst (ConfigMaps_Create scripted (Namespace exampleGateway)
                     (gatewayConfigMap exampleCommon (exampleGateway\<lparr>Status := NodePhaseRunning\<rparr>)) noScript) = None"
    by (simp add: scripted_def noScript_def)
  have h3: "common_DefaultGatewayDeploymentName exampleCommon (Name exampleGateway) \<noteq> Name exampleGateway"
    by (simp add: exampleCommon_def exampleGateway_def)
  have n: "common_DefaultGatewayDeploymentName exampleCommon ''webhook'' = ''webhook-gateway-deployment''"
    "Namespace exampleGateway = ''argo-events''" "Name exampleGateway = ''webhook''"
    by (simp_all add: exampleCommon_def exampleGateway_def)
  from operate_Error_fetch_name[OF h1 h2 h3, of noScript] show ?thesis
    unfolding n by (elim exE conjE) (intro exI conjI, assumption+)
qed

section \<open>The route table of the webhook gateway\<close>

lemma RunConfiguration_registers:
  assumes inst: "routesInstalled s" and u: "Unmarshal (ConfigData_Config config) = Inr (Some h)"
    and e: "Endpoint h \<noteq> []" and m: "Method h \<noteq> []"
  shows "\<exists>s'. RunConfiguration Unmarshal config s = (Run_Waiting h, config\<lparr>Active := True\<rparr>, s')
           \<and> routesInstalled s'
           \<and> activeRoutes s' = (activeRoutes s)
                (Endpoint h \<mapsto> insert (Method h)
                   (case activeRoutes s (Endpoint h) of None \<Rightarrow> {} | Some ms \<Rightarrow> ms))
           \<and> dispatched s' = dispatched s"
proof -
  define s1 where "s1 = (if hook_Port h \<noteq> [] \<and> \<not> hasServerStarted s
                    then s\<lparr>hasServerStarted := True, listening := listening s @ [hook_Port h]\<rparr>
                    else s)"
  have s1: "activeRoutes s1 = activeRoutes s" "handlers s1 = handlers s" "dispatched s1 = dispatched s"
    by (simp_all add: s1_def)
  have run: "RunConfiguration Unmarshal config s =
      (case activeRoutes s1 (Endpoint h) of
                  None \<Rightarrow>
                    let s2 = s1\<lparr>activeRoutes := (activeRoutes s1)(Endpoint h \<mapsto> {Method h})\<rparr>
                    in (case handlers s2 (Endpoint h) of
                          Some other \<Rightarrow> (Run_Panicked ''http: multiple registrations'', config\<lparr>Active := True\<rparr>, s2)
                        | None \<Rightarrow>
                            (Run_Waiting h, config\<lparr>Active := True\<rparr>,
                             s2\<lparr>handlers := (handlers s2)
                                  (Endpoint h \<mapsto> \<lparr> handler_Endpoint = Endpoint h,
                                                   handler_Src = Src config \<rparr>)\<rparr>))
                | Some methods \<Rightarrow>
                    (Run_Waiting h, config\<lparr>Active := True\<rparr>,
                     s1\<lparr>activeRoutes := (activeRoutes s1)(Endpoint h \<mapsto> insert (Method h) methods)\<rparr>))"
    using u e m unfolding RunConfiguration_def Let_def s1_def
    by (simp split: option.splits)
  show ?thesis
  proof (cases "activeRoutes s (Endpoint h)")
    case None
    with inst have hn: "handlers s (Endpoint h) = None"
      by (simp add: routesInstalled_def)
    define s' where "s' = s1\<lparr>activeRoutes := (activeRoutes s1)(Endpoint h \<mapsto> {Method h}),
                           handlers := (handlers s1)
                                  (Endpoint h \<mapsto> \<lparr> handler_Endpoint = Endpoint h,
                                                   handler_Src = Src config \<rparr>)\<rparr>"
    have r: "RunConfiguration Unmarshal config s = (Run_Waiting h, config\<lparr>Active := True\<rparr>, s')"
      by (simp add: run s1 None hn Let_def s'_def)
    have i: "routesInstalled s'"
      using inst by (simp add: routesInstalled_def s'_def s1)
    have a: "activeRoutes s' = (activeRoutes s)
                (Endpoint h \<mapsto> insert (Method h)
                   (case activeRoutes s (Endpoint h) of None \<Rightarrow> {} | Some ms \<Rightarrow> ms))"
      by (simp add: s'_def s1 None)
    have d: "dispatched s' = dispatched s" by (simp add: s'_def s1)
    from r i a d show ?thesis by (intro exI conjI)
  next
    case (Some ms)
    define s' where "s' = s1\<lparr>activeRoutes := (activeRoutes s1)(Endpoint h \<mapsto> insert (Method h) ms)\<rparr>"
    have r: "RunConfiguration Unmarshal config s = (Run_Waiting h, config\<lparr>Active := True\<rparr>, s')"
      by (simp add: run s1 Some s'_def)
    from inst have "(activeRoutes s (Endpoint h) = None) = (handlers s (Endpoint h) = None)"
      by (simp add: routesInstalled_def)
    with Some have "handlers s (Endpoint h) \<noteq> None" by simp
    then have i: "routesInstalled s'"
      using inst by (auto simp: routesInstalled_def s'_def s1)
    have a: "activeRoutes s' = (activeRoutes s)
                (Endpoint h \<mapsto> insert (Method h)
                   (case activeRoutes s (Endpoint h) of None \<Rightarrow> {} | Some ms \<Rightarrow> ms))"
      by (simp add: s'_def s1 Some)
    have d: "dispatched s' = dispatched s" by (simp add: s'_def s1)
    from r i a d show ?thesis by (intro exI conjI)
  qed
qed




lemma routesInstalled_initialState: "routesInstalled initialState"
  by (simp add: routesInstalled_def initialState_def)

lemma routesInstalled_stop:
  assumes inst: "routesInstalled s"
  shows "routesInstalled (RunConfiguration_stop h s)"
proof (cases "activeRoutes s (Endpoint h)")
  case None
  with inst show ?thesis by (simp add: RunConfiguration_stop_def)
next
  case (Some ms)
  from inst have "(activeRoutes s (Endpoint h) = None) = (handlers s (Endpoint h) = None)"
    by (simp add: routesInstalled_def)
  with Some have "handlers s (Endpoint h) \<noteq> None" by simp
  with inst Some show ?thesis
    by (auto simp: routesInstalled_def RunConfiguration_stop_def)
qed

lemma routesInstalled_ServeHTTP:
  "routesInstalled s \<Longrightarrow> routesInstalled (snd (ServeHTTP req s))"
  by (auto simp: routesInstalled_def ServeHTTP_def handlerFunc_def split: option.splits sum.splits)

lemma routesInstalled_RunConfiguration:
  assumes "routesInstalled s"
  shows "routesInstalled (snd (snd (RunConfiguration Unmarshal config s)))"
proof (cases "Unmarshal (ConfigData_Config config)")
  case (Inl err)
  with assms show ?thesis by (simp add: RunConfiguration_def)
next
  case (Inr ho)
  show ?thesis
  proof (cases ho)
    case None
    with Inr assms show ?thesis by (simp add: RunConfiguration_def)
  next
    case (Some h)
    show ?thesis
    proof (cases "Endpoint h \<noteq> [] \<and> Method h \<noteq> []")
      case True
      from RunConfiguration_registers[where Unmarshal = Unmarshal and config = config and h = h, OF assms]
        Inr Some True
      show ?thesis by auto
    next
      case False
      with Inr Some assms show ?thesis
        by (auto simp: RunConfiguration_def Let_def routesInstalled_def)
    qed
  qed
qed







end
